theory Spec2Isabelle
  imports Complex_Main
begin

section \<open>Strings\<close>

text \<open>
  Python strings are modelled as \<^typ>\<open>string\<close> (lists of bytes). \<open>str.upper\<close> and
  \<open>str.lower\<close> are modelled on the ASCII letters only; every other byte is left as it is.
  The model therefore covers ASCII file names, column names and catalog names.
\<close>

definition upper_char :: "char \<Rightarrow> char" where
  "upper_char c =
     (let n = (of_char c :: nat) in if 97 \<le> n \<and> n \<le> 122 then char_of (n - 32) else c)"

definition lower_char :: "char \<Rightarrow> char" where
  "lower_char c =
     (let n = (of_char c :: nat) in if 65 \<le> n \<and> n \<le> 90 then char_of (n + 32) else c)"

definition upper :: "string \<Rightarrow> string" where
  "upper s = map upper_char s"

definition lower :: "string \<Rightarrow> string" where
  "lower s = map lower_char s"

text \<open>\<open>starts_with p s\<close>: \<open>s.startswith(p)\<close>.\<close>

fun starts_with :: "string \<Rightarrow> string \<Rightarrow> bool" where
  "starts_with [] s = True"
| "starts_with (p # ps) [] = False"
| "starts_with (p # ps) (c # cs) = (p = c \<and> starts_with ps cs)"

text \<open>\<open>str_in p s\<close>: the Python expression \<open>p in s\<close> on two strings.\<close>

fun str_in :: "string \<Rightarrow> string \<Rightarrow> bool" where
  "str_in p [] = (p = [])"
| "str_in p (c # cs) = (starts_with p (c # cs) \<or> str_in p cs)"

section \<open>File names: \<open>Path(filename).name\<close> and \<open>Path(filename).stem\<close>\<close>

text \<open>
  \<open>pathlib\<close> on a POSIX system: the path is split at \<open>/\<close>, empty components and
  \<open>.\<close> components are dropped, and \<open>name\<close> is the last component left (the empty
  string when there is none). \<open>stem\<close> cuts \<open>name\<close> at its last dot, unless that dot is
  the first or the last character of the name or there is no dot.
\<close>

fun split_sep :: "char \<Rightarrow> string \<Rightarrow> string list" where
  "split_sep sep [] = [[]]"
| "split_sep sep (c # cs) =
     (if c = sep then [] # split_sep sep cs
      else (case split_sep sep cs of
              [] \<Rightarrow> [[c]]
            | w # ws \<Rightarrow> (c # w) # ws))"

definition path_name :: "string \<Rightarrow> string" where
  "path_name filename =
     (case filter (\<lambda>c. c \<noteq> [] \<and> c \<noteq> ''.'') (split_sep CHR ''/'' filename) of
        [] \<Rightarrow> []
      | p # ps \<Rightarrow> last (p # ps))"

text \<open>\<open>rfind c s\<close>: \<open>s.rfind(c)\<close>, the highest index of \<open>c\<close> in \<open>s\<close>, or \<open>-1\<close>.\<close>

fun rfind :: "char \<Rightarrow> string \<Rightarrow> int" where
  "rfind c [] = -1"
| "rfind c (x # xs) =
     (let r = rfind c xs in
      if r \<ge> 0 then r + 1 else if x = c then 0 else -1)"

definition stem :: "string \<Rightarrow> string" where
  "stem filename =
     (let name = path_name filename; i = rfind CHR ''.'' name in
      if 0 < i \<and> i < int (length name) - 1 then take (nat i) name else name)"

section \<open>The built-in mappings\<close>

record mapping_entry =
  geographies :: "string list"
  prod_hier_filter :: string

text \<open>A Python dict keeps its keys in insertion order: an association list.\<close>

type_synonym mappings = "(string \<times> mapping_entry) list"

definition BUILT_IN_MAPPINGS :: mappings where
  "BUILT_IN_MAPPINGS =
   [(''APROTEICI'',
      \<lparr>geographies =
         [''Hypermarkets (7011)'', ''SSS (7013)'', ''Supermarkets (7012)'',
          ''Total Generalist Online (6100)'', ''Total Italy (inc. Discount) (7406)'',
          ''Total Italy + Pharma (4380)'', ''Total Italy Hyper+Super+Pharma (4301)'',
          ''Total Italy Pharma (3930)'', ''Total Italy+Pharma+Online (4397)''],
       prod_hier_filter = ''01-APROTEICO_3''\<rparr>),
    (''INFANZIA'',
      \<lparr>geographies =
         [''Discount (58)'', ''Hypermarkets (7011)'', ''SSS (7013)'', ''Supermarkets (7012)'',
          ''Total Generalist Online (6100)'', ''Total Italy (inc. Discount) (7406)'',
          ''Total Italy + Pharma (4380)'', ''Total Italy Hyper+Super+Pharma (4301)'',
          ''Total Italy Pharma (3930)'', ''Total Italy+Pharma+Online (4397)'',
          ''Traditionals (incl. Microm. <100mq) (7425)''],
       prod_hier_filter = ''02-CATEGORY_1''\<rparr>),
    (''Sauces'',
      \<lparr>geographies =
         [''Discount (58)'', ''Hypermarkets (7011)'', ''SSS (7013)'', ''Supermarkets (7012)'',
          ''Total Generalist Online (6100)'', ''Total Italy (inc. Discount) (7406)'',
          ''Traditionals (incl. Microm. <100mq) (7425)''],
       prod_hier_filter = ''01-CATEGORY_8''\<rparr>),
    (''SALSE'',
      \<lparr>geographies =
         [''Discount (58)'', ''Hypermarkets (7011)'', ''SSS (7013)'', ''Supermarkets (7012)'',
          ''Total Generalist Online (6100)'', ''Total Italy (inc. Discount) (7406)'',
          ''Traditionals (incl. Microm. <100mq) (7425)''],
       prod_hier_filter = ''02-CATEGORY_1''\<rparr>),
    (''GLUTINE'',
      \<lparr>geographies =
         [''Discount (58)'', ''Hypermarkets (7011)'', ''SSS (7013)'', ''Supermarkets (7012)'',
          ''Total Generalist Online (6100)'', ''Total Italy (inc. Discount) (7406)'',
          ''Total Italy + Pharma (4380)'', ''Total Italy Hyper+Super+Pharma (4301)'',
          ''Total Italy Pharma (3930)'', ''Total Italy+Pharma+Online (4397)'',
          ''Traditionals (incl. Microm. <100mq) (7425)''],
       prod_hier_filter = ''01-SENZA_GLUTINE_4''\<rparr>)]"

text \<open>The comparator object: \<open>self.threshold\<close> and \<open>self.mappings\<close>.\<close>

record comparator =
  threshold :: real
  mappings :: mappings

definition default_comparator :: comparator where
  "default_comparator = \<lparr>threshold = 1 / 100, mappings = BUILT_IN_MAPPINGS\<rparr>"

section \<open>Pattern matching on file names\<close>

text \<open>The loop of \<open>match_filename_to_mapping\<close> over \<open>self.mappings.keys()\<close>.\<close>

fun match_loop :: "string list \<Rightarrow> string \<Rightarrow> string option" where
  "match_loop [] filename_base = None"
| "match_loop (original_pattern # rest) filename_base =
     (if str_in (upper original_pattern) filename_base then Some original_pattern
      else match_loop rest filename_base)"

definition match_filename_to_mapping :: "comparator \<Rightarrow> string \<Rightarrow> string option" where
  "match_filename_to_mapping self filename =
     match_loop (map fst (mappings self)) (upper (stem filename))"

text \<open>
  The failures of the comparison. The source returns a message text for each; the
  constructors carry the data the message is built from.
\<close>

datatype py_exception = ValueError | TypeError | KeyError | IndexError | AttributeError

datatype failure =
    UnmappedFile "string list" "string list"
  | PatternMismatch string string
  | EmptyAfterFilter string
  | DateColumnNotFound
  | ParseFailure
  | NoCommonDates
  | NoColumnsMatched
  | ComparisonError py_exception

definition validate_file_mappings :: "comparator \<Rightarrow> string \<Rightarrow> string \<Rightarrow> failure + string" where
  "validate_file_mappings self file1_name file2_name =
     (let pattern1 = match_filename_to_mapping self file1_name;
          pattern2 = match_filename_to_mapping self file2_name
      in if pattern1 = None \<or> pattern2 = None then
           Inl (UnmappedFile
                  ((if pattern1 = None then [''File 1: '' @ path_name file1_name] else []) @
                   (if pattern2 = None then [''File 2: '' @ path_name file2_name] else []))
                  (map fst (mappings self)))
         else if pattern1 \<noteq> pattern2 then
           Inl (PatternMismatch (the pattern1) (the pattern2))
         else Inr (the pattern1))"

section \<open>Scalars\<close>

text \<open>
  A Python float is either NaN or a finite number; finite floats are modelled as reals
  (rounding and the infinities are not modelled). Python and numpy integers are
  modelled as the floats they convert to.
\<close>

datatype pyfloat = FNaN | Fin real

text \<open>
  A cell or an index label of a data frame: \<open>None\<close>, a number (\<open>Num FNaN\<close> is the NaN
  pandas stores for an empty cell), a string, a \<open>Timestamp\<close> (nanoseconds since the
  epoch) or \<open>NaT\<close>.
\<close>

datatype scalar = PyNone | Num pyfloat | Str string | Ts int | NaT

text \<open>\<open>pd.isna\<close> on a scalar.\<close>

fun isna :: "scalar \<Rightarrow> bool" where
  "isna PyNone = True"
| "isna (Num FNaN) = True"
| "isna NaT = True"
| "isna _ = False"

text \<open>
  Python truth value: NaN is a non-zero float and therefore true; a timestamp and \<open>NaT\<close>
  define no truth value of their own and are true as every plain object is.
\<close>

fun truthy :: "scalar \<Rightarrow> bool" where
  "truthy PyNone = False"
| "truthy (Num FNaN) = True"
| "truthy (Num (Fin r)) = (r \<noteq> 0)"
| "truthy (Str s) = (s \<noteq> [])"
| "truthy (Ts t) = True"
| "truthy NaT = True"

text \<open>\<open>val or 0\<close>.\<close>

definition or_zero :: "scalar \<Rightarrow> scalar" where
  "or_zero val = (if truthy val then val else Num (Fin 0))"

text \<open>
  \<open>float(val)\<close>. Python's parser of float literals is a parameter \<open>float_of_str\<close>
  (\<open>None\<close>: the string is not a float literal and \<open>float\<close> raises \<open>ValueError\<close>).
\<close>

fun py_float :: "(string \<Rightarrow> pyfloat option) \<Rightarrow> scalar \<Rightarrow> py_exception + pyfloat" where
  "py_float float_of_str (Num f) = Inr f"
| "py_float float_of_str (Str s) =
     (case float_of_str s of None \<Rightarrow> Inl ValueError | Some f \<Rightarrow> Inr f)"
| "py_float float_of_str PyNone = Inl TypeError"
| "py_float float_of_str (Ts t) = Inl TypeError"
| "py_float float_of_str NaT = Inl TypeError"

fun fsub :: "pyfloat \<Rightarrow> pyfloat \<Rightarrow> pyfloat" where
  "fsub (Fin a) (Fin b) = Fin (a - b)"
| "fsub _ _ = FNaN"

fun fabs :: "pyfloat \<Rightarrow> pyfloat" where
  "fabs (Fin a) = Fin \<bar>a\<bar>"
| "fabs FNaN = FNaN"

text \<open>\<open>diff > threshold\<close>: every comparison with NaN is false.\<close>

fun fgt :: "pyfloat \<Rightarrow> real \<Rightarrow> bool" where
  "fgt (Fin a) t = (a > t)"
| "fgt FNaN t = False"

section \<open>Comparing two values\<close>

text \<open>
  The first component of the result is \<open>is_different\<close>: \<open>None\<close>, \<open>True\<close> or \<open>False\<close>.
  The two \<open>float\<close> calls of the one-sided branch stand outside the \<open>try\<close>, so their
  exception leaves the function; those inside the \<open>try\<close> lead to the \<open>except\<close> branch.
\<close>

definition compare_values ::
  "(string \<Rightarrow> pyfloat option) \<Rightarrow> comparator \<Rightarrow> scalar \<Rightarrow> scalar \<Rightarrow>
     py_exception + (bool option \<times> pyfloat)" where
  "compare_values float_of_str self val1 val2 =
     (if isna val1 \<and> isna val2 then Inr (None, Fin 0)
      else if isna val1 \<or> isna val2 then
        (case py_float float_of_str (or_zero val1) of
           Inl e \<Rightarrow> Inl e
         | Inr f1 \<Rightarrow>
             (case py_float float_of_str (or_zero val2) of
                Inl e \<Rightarrow> Inl e
              | Inr f2 \<Rightarrow> Inr (Some True, fabs (fsub f1 f2))))
      else
        (case py_float float_of_str val1 of
           Inl e \<Rightarrow> Inr (Some (val1 \<noteq> val2), Fin 0)
         | Inr v1 \<Rightarrow>
             (case py_float float_of_str val2 of
                Inl e \<Rightarrow> Inr (Some (val1 \<noteq> val2), Fin 0)
              | Inr v2 \<Rightarrow>
                  (let diff = fabs (fsub v1 v2)
                   in Inr (Some (fgt diff (threshold self)), diff)))))"

section \<open>Column mapping\<close>

definition col_matches :: "string \<Rightarrow> string \<Rightarrow> bool" where
  "col_matches target_col col =
     (lower target_col = lower col \<or>
      str_in (lower target_col) (lower col) \<or>
      str_in (lower col) (lower target_col))"

text \<open>The inner \<open>for col in df_cols: if ...: match = col; break\<close>.\<close>

fun find_col :: "string \<Rightarrow> string list \<Rightarrow> string option" where
  "find_col target_col [] = None"
| "find_col target_col (col # cols) =
     (if col_matches target_col col then Some col else find_col target_col cols)"

text \<open>\<open>d[k] = v\<close> on a dict: an existing key keeps its place and gets the new value.\<close>

fun dict_set :: "('k \<times> 'v) list \<Rightarrow> 'k \<Rightarrow> 'v \<Rightarrow> ('k \<times> 'v) list" where
  "dict_set [] k v = [(k, v)]"
| "dict_set ((k', v') # d) k v =
     (if k' = k then (k, v) # d else (k', v') # dict_set d k v)"

text \<open>
  \<open>if col1_match and col2_match\<close> is a test of truth values: \<open>None\<close> and the empty
  string are both false.
\<close>

definition match_truthy :: "string option \<Rightarrow> bool" where
  "match_truthy m = (case m of None \<Rightarrow> False | Some c \<Rightarrow> c \<noteq> [])"

fun mapping_loop ::
  "string list \<Rightarrow> string list \<Rightarrow> string list \<Rightarrow> (string \<times> string) list \<Rightarrow>
     (string \<times> string) list" where
  "mapping_loop [] df1_cols df2_cols column_map = column_map"
| "mapping_loop (target_col # rest) df1_cols df2_cols column_map =
     (let col1_match = find_col target_col df1_cols;
          col2_match = find_col target_col df2_cols
      in mapping_loop rest df1_cols df2_cols
           (if match_truthy col1_match \<and> match_truthy col2_match
            then dict_set column_map (the col1_match) (the col2_match)
            else column_map))"

definition get_column_mapping ::
  "comparator \<Rightarrow> string \<Rightarrow> string list \<Rightarrow> string list \<Rightarrow> (string \<times> string) list" where
  "get_column_mapping self mapping_pattern df1_cols df2_cols =
     (case map_of (mappings self) mapping_pattern of
        None \<Rightarrow> []
      | Some entry \<Rightarrow> mapping_loop (geographies entry) df1_cols df2_cols [])"

section \<open>Data frames\<close>

text \<open>
  A data frame as \<open>pd.read_excel\<close> hands it over: the row labels (\<open>df.index\<close>) and the
  columns in their order, each with its cells, one per row. Of a column's dtype only
  the test \<open>dtype == 'object'\<close> is used. \<open>read_excel\<close> makes the column names
  distinct, so a column is looked up by the first entry of its name.
\<close>

record column =
  dtype_object :: bool
  cells :: "scalar list"

record dataframe =
  index :: "scalar list"
  columns :: "(string \<times> column) list"

definition column_names :: "dataframe \<Rightarrow> string list" where
  "column_names df = map fst (columns df)"

text \<open>Every column has one cell per row.\<close>

definition wf_dataframe :: "dataframe \<Rightarrow> bool" where
  "wf_dataframe df = list_all (\<lambda>(name, col). length (cells col) = length (index df)) (columns df)"

text \<open>The rows at the given positions, in the given order (\<open>df.iloc[positions]\<close>).\<close>

definition take_rows :: "dataframe \<Rightarrow> nat list \<Rightarrow> dataframe" where
  "take_rows df positions =
     \<lparr>index = map (\<lambda>i. index df ! i) positions,
      columns = map (\<lambda>(name, col). (name, col\<lparr>cells := map (\<lambda>i. cells col ! i) positions\<rparr>))
                  (columns df)\<rparr>"

text \<open>\<open>df.empty\<close>: one of the two axes has length 0.\<close>

definition empty :: "dataframe \<Rightarrow> bool" where
  "empty df = (index df = [] \<or> columns df = [])"

section \<open>Filtering by ProdHier\<close>

text \<open>
  \<open>df[df['ProdHier'] == prod_hier_filter]\<close>, with \<open>filter_value\<close> for the argument
  \<open>prod_hier_filter\<close>: the mask is true at the cells that are this very string. The warning on an empty result is an effect on the page only.
\<close>

definition mask_positions :: "bool list \<Rightarrow> nat list" where
  "mask_positions flags = filter (\<lambda>i. flags ! i) [0..<length flags]"

definition filter_extract_by_prodhier :: "dataframe \<Rightarrow> string \<Rightarrow> dataframe" where
  "filter_extract_by_prodhier df filter_value =
     (case map_of (columns df) ''ProdHier'' of
        None \<Rightarrow> df
      | Some col \<Rightarrow>
          take_rows df (mask_positions (map (\<lambda>v. v = Str filter_value) (cells col))))"

section \<open>Dates\<close>

fun first_present :: "string list \<Rightarrow> string list \<Rightarrow> string option" where
  "first_present [] names = None"
| "first_present (col # rest) names =
     (if col \<in> set names then Some col else first_present rest names)"

definition find_date_column :: "dataframe \<Rightarrow> string option" where
  "find_date_column df =
     first_present [''Time'', ''Date'', ''PER_DESCRIPTION'', ''Week ending'', ''Period'']
       (column_names df)"

text \<open>
  \<open>'Week ending' in str(value)\<close>. The text \<open>str\<close> gives for \<open>None\<close>, a number, a
  timestamp or \<open>NaT\<close> has no letter sequence \<open>Week ending\<close>, so only a string cell can
  pass the test.
\<close>

definition contains_week_ending :: "scalar \<Rightarrow> bool" where
  "contains_week_ending v = (case v of Str s \<Rightarrow> str_in ''Week ending'' s | _ \<Rightarrow> False)"

text \<open>
  \<open>.str.extract(r'(\d{2}-\d{2}-\d{4})')[0]\<close>: the leftmost place where two digits, a
  hyphen, two digits, a hyphen and four digits stand; NaN for a cell without such a
  place and for a cell that is no string. Digits are the ASCII digits.
\<close>

definition is_digit :: "char \<Rightarrow> bool" where
  "is_digit c = (48 \<le> (of_char c :: nat) \<and> (of_char c :: nat) \<le> 57)"

definition date_pattern_here :: "string \<Rightarrow> bool" where
  "date_pattern_here s =
     (let p = take 10 s
      in length p = 10 \<and> list_all (\<lambda>i. is_digit (p ! i)) [0, 1, 3, 4, 6, 7, 8, 9] \<and>
         p ! 2 = CHR ''-'' \<and> p ! 5 = CHR ''-'')"

fun find_date_pattern :: "string \<Rightarrow> string option" where
  "find_date_pattern [] = None"
| "find_date_pattern (c # cs) =
     (if date_pattern_here (c # cs) then Some (take 10 (c # cs)) else find_date_pattern cs)"

definition str_extract :: "scalar \<Rightarrow> scalar" where
  "str_extract v =
     (case v of
        Str s \<Rightarrow> (case find_date_pattern s of None \<Rightarrow> Num FNaN | Some m \<Rightarrow> Str m)
      | _ \<Rightarrow> Num FNaN)"

text \<open>
  \<open>pd.to_datetime\<close> is a function of the library, called once on the whole column with
  its default \<open>errors='raise'\<close>. It is a parameter \<open>to_datetime\<close> of the model: its first
  argument is \<open>dayfirst\<close>, its second the values of the column, and its result is the
  exception it raises or the values of the Series it returns. Nothing is assumed of it
  but what a theorem states.
\<close>

type_synonym to_datetime_fun = "bool \<Rightarrow> scalar list \<Rightarrow> py_exception + scalar list"

text \<open>
  The \<open>try\<close> block of \<open>parse_dates\<close>: which branch is taken, then the new \<open>Date\<close> cells.
  \<open>iloc[0]\<close> on a column without rows raises \<open>IndexError\<close>.
\<close>

definition week_ending_branch :: "column \<Rightarrow> py_exception + bool" where
  "week_ending_branch col =
     (if dtype_object col then
        (case cells col of
           [] \<Rightarrow> Inl IndexError
         | v # vs \<Rightarrow> Inr (contains_week_ending v))
      else Inr False)"

definition date_cells :: "to_datetime_fun \<Rightarrow> column \<Rightarrow> py_exception + scalar list" where
  "date_cells to_datetime col =
     (case week_ending_branch col of
        Inl e \<Rightarrow> Inl e
      | Inr True \<Rightarrow> to_datetime True (map str_extract (cells col))
      | Inr False \<Rightarrow> to_datetime False (cells col))"

text \<open>
  \<open>parse_dates\<close>: \<open>df['Date'] = ...\<close> replaces the column \<open>Date\<close> where it stands or
  adds it as the last column; on any exception the frame is returned as it was.
\<close>

definition parse_dates :: "to_datetime_fun \<Rightarrow> dataframe \<Rightarrow> string \<Rightarrow> dataframe" where
  "parse_dates to_datetime df col_name =
     (case map_of (columns df) col_name of
        None \<Rightarrow> df
      | Some col \<Rightarrow>
          (case date_cells to_datetime col of
             Inl e \<Rightarrow> df
           | Inr ds \<Rightarrow>
               df\<lparr>columns :=
                    dict_set (columns df) ''Date'' \<lparr>dtype_object = False, cells = ds\<rparr>\<rparr>))"

text \<open>\<open>df.set_index('Date', inplace=True)\<close>: the column becomes the index and leaves the columns.\<close>

definition set_index :: "dataframe \<Rightarrow> string \<Rightarrow> py_exception + dataframe" where
  "set_index df name =
     (case map_of (columns df) name of
        None \<Rightarrow> Inl KeyError
      | Some col \<Rightarrow>
          Inr \<lparr>index = cells col, columns = filter (\<lambda>(n, c). n \<noteq> name) (columns df)\<rparr>)"

section \<open>Index operations\<close>

text \<open>
  \<open>Index.intersection\<close> and \<open>Index.difference\<close> give each label once. The order in
  which pandas returns the labels (it may sort them) is not modelled: the results keep
  the order of first occurrence, and no theorem below depends on it.
\<close>

fun unique :: "'a list \<Rightarrow> 'a list" where
  "unique [] = []"
| "unique (x # xs) = x # unique (filter (\<lambda>y. y \<noteq> x) xs)"

definition index_intersection :: "scalar list \<Rightarrow> scalar list \<Rightarrow> scalar list" where
  "index_intersection self_index other = unique (filter (\<lambda>d. d \<in> set other) self_index)"

definition index_difference :: "scalar list \<Rightarrow> scalar list \<Rightarrow> scalar list" where
  "index_difference self_index other = unique (filter (\<lambda>d. d \<notin> set other) self_index)"

definition label_positions :: "dataframe \<Rightarrow> scalar \<Rightarrow> nat list" where
  "label_positions df label = filter (\<lambda>i. index df ! i = label) [0..<length (index df)]"

text \<open>\<open>df.loc[labels]\<close>: for each label in turn, all the rows that carry it.\<close>

definition loc :: "dataframe \<Rightarrow> scalar list \<Rightarrow> dataframe" where
  "loc df labels = take_rows df (concat (map (label_positions df) labels))"

text \<open>
  \<open>df.at[label, col]\<close>: the cell when one row carries the label. With several such rows
  pandas hands back a Series, and the first truth test in \<open>compare_values\<close> raises
  \<open>ValueError\<close>.
\<close>

definition df_at :: "dataframe \<Rightarrow> scalar \<Rightarrow> string \<Rightarrow> py_exception + scalar" where
  "df_at df label col =
     (case map_of (columns df) col of
        None \<Rightarrow> Inl KeyError
      | Some c \<Rightarrow>
          (case label_positions df label of
             [] \<Rightarrow> Inl KeyError
           | [i] \<Rightarrow> Inr (cells c ! i)
           | i # j # others \<Rightarrow> Inl ValueError))"

text \<open>
  \<open>date.strftime('%Y-%m-%d')\<close>: defined on a timestamp; \<open>NaT\<close> raises \<open>ValueError\<close>, any
  other label has no such method. The record keeps the timestamp that is formatted.
\<close>

fun strftime :: "scalar \<Rightarrow> py_exception + int" where
  "strftime (Ts t) = Inr t"
| "strftime NaT = Inl ValueError"
| "strftime _ = Inl AttributeError"

section \<open>The comparison loop\<close>

record mismatch_record =
  mr_date :: int
  column_file_1 :: string
  value_file_1 :: scalar
  column_file_2 :: string
  value_file_2 :: scalar
  mr_difference :: pyfloat
  above_threshold :: bool

text \<open>The accumulators: \<open>mismatch_rows\<close>, \<open>total_comparisons\<close>, \<open>significant_differences\<close>.\<close>

type_synonym loop_state = "mismatch_record list \<times> nat \<times> nat"

text \<open>The body of the inner loop.\<close>

definition compare_cell ::
  "(string \<Rightarrow> pyfloat option) \<Rightarrow> comparator \<Rightarrow> dataframe \<Rightarrow> dataframe \<Rightarrow> string \<Rightarrow> string \<Rightarrow>
     scalar \<Rightarrow> loop_state \<Rightarrow> py_exception + loop_state" where
  "compare_cell float_of_str self df1_aligned df2_aligned col1 col2 date st =
     (case st of (mismatch_rows, total_comparisons, significant_differences) \<Rightarrow>
      (case df_at df1_aligned date col1 of
         Inl e \<Rightarrow> Inl e
       | Inr val1 \<Rightarrow>
      (case df_at df2_aligned date col2 of
         Inl e \<Rightarrow> Inl e
       | Inr val2 \<Rightarrow>
      (case compare_values float_of_str self val1 val2 of
         Inl e \<Rightarrow> Inl e
       | Inr (is_different, difference) \<Rightarrow>
           if is_different = Some True \<and> fgt difference (threshold self) then
             (case strftime date of
                Inl e \<Rightarrow> Inl e
              | Inr d \<Rightarrow>
                  Inr (mismatch_rows @
                         [\<lparr>mr_date = d, column_file_1 = col1, value_file_1 = val1,
                           column_file_2 = col2, value_file_2 = val2,
                           mr_difference = difference, above_threshold = True\<rparr>],
                       total_comparisons + 1, significant_differences + 1))
           else Inr (mismatch_rows, total_comparisons + 1, significant_differences)))))"

text \<open>\<open>for date in common_dates\<close>.\<close>

fun compare_dates ::
  "(string \<Rightarrow> pyfloat option) \<Rightarrow> comparator \<Rightarrow> dataframe \<Rightarrow> dataframe \<Rightarrow> string \<Rightarrow> string \<Rightarrow>
     scalar list \<Rightarrow> loop_state \<Rightarrow> py_exception + loop_state" where
  "compare_dates float_of_str self df1 df2 col1 col2 [] st = Inr st"
| "compare_dates float_of_str self df1 df2 col1 col2 (date # dates) st =
     (case compare_cell float_of_str self df1 df2 col1 col2 date st of
        Inl e \<Rightarrow> Inl e
      | Inr st' \<Rightarrow> compare_dates float_of_str self df1 df2 col1 col2 dates st')"

text \<open>\<open>for col1, col2 in column_map.items()\<close>.\<close>

fun compare_columns ::
  "(string \<Rightarrow> pyfloat option) \<Rightarrow> comparator \<Rightarrow> dataframe \<Rightarrow> dataframe \<Rightarrow>
     (string \<times> string) list \<Rightarrow> scalar list \<Rightarrow> loop_state \<Rightarrow> py_exception + loop_state" where
  "compare_columns float_of_str self df1 df2 [] common_dates st = Inr st"
| "compare_columns float_of_str self df1 df2 ((col1, col2) # column_map) common_dates st =
     (case compare_dates float_of_str self df1 df2 col1 col2 common_dates st of
        Inl e \<Rightarrow> Inl e
      | Inr st' \<Rightarrow> compare_columns float_of_str self df1 df2 column_map common_dates st')"

section \<open>The comparison of two files\<close>

text \<open>
  What \<open>compare_files\<close> has computed when it calls \<open>generate_report\<close>. The report itself
  (the Excel sheets and the summary shown on the page) is not modelled.
\<close>

record outcome =
  mismatch_rows :: "mismatch_record list"
  total_comparisons :: nat
  significant_differences :: nat
  common_dates :: "scalar list"
  new_dates :: "scalar list"
  mapping_pattern :: string
  category_filter :: string

text \<open>From \<open># Find common dates and new dates\<close> to the end of the loop.\<close>

definition compare_indexed ::
  "(string \<Rightarrow> pyfloat option) \<Rightarrow> comparator \<Rightarrow> string \<Rightarrow> string \<Rightarrow> dataframe \<Rightarrow> dataframe \<Rightarrow>
     failure + outcome" where
  "compare_indexed float_of_str self pattern filter_value df1 df2_filtered =
     (let common = index_intersection (index df1) (index df2_filtered);
          new = index_difference (index df2_filtered) (index df1)
      in if length common = 0 then Inl NoCommonDates
         else
           (let df1_aligned = loc df1 common;
                df2_aligned = loc df2_filtered common;
                column_map = get_column_mapping self pattern
                               (column_names df1_aligned) (column_names df2_aligned)
            in if column_map = [] then Inl NoColumnsMatched
               else
                 (case compare_columns float_of_str self df1_aligned df2_aligned
                         column_map common ([], 0, 0) of
                    Inl e \<Rightarrow> Inl (ComparisonError e)
                  | Inr (rows, comparisons, significant) \<Rightarrow>
                      Inr \<lparr>mismatch_rows = rows, total_comparisons = comparisons,
                           significant_differences = significant, common_dates = common,
                           new_dates = new, mapping_pattern = pattern,
                           category_filter = filter_value\<rparr>)))"

text \<open>
  \<open>compare_files\<close> on the two file names and the two frames \<open>pd.read_excel\<close> returned.
  An exception anywhere inside is caught and reported as \<open>Error during comparison\<close>.
\<close>

definition compare_files ::
  "(string \<Rightarrow> pyfloat option) \<Rightarrow> to_datetime_fun \<Rightarrow> comparator \<Rightarrow>
     string \<Rightarrow> string \<Rightarrow> dataframe \<Rightarrow> dataframe \<Rightarrow> failure + outcome" where
  "compare_files float_of_str to_datetime self unify_name extract_name df1 df2 =
     (case validate_file_mappings self unify_name extract_name of
        Inl err \<Rightarrow> Inl err
      | Inr pattern \<Rightarrow>
     (case map_of (mappings self) pattern of
        None \<Rightarrow> Inl (ComparisonError KeyError)
      | Some entry \<Rightarrow>
          (let df2_filtered = filter_extract_by_prodhier df2 (prod_hier_filter entry)
           in if empty df2_filtered then Inl (EmptyAfterFilter (prod_hier_filter entry))
              else
                (case (find_date_column df1, find_date_column df2_filtered) of
                   (Some df1_date_col, Some df2_date_col) \<Rightarrow>
                     (let df1' = parse_dates to_datetime df1 df1_date_col;
                          df2' = parse_dates to_datetime df2_filtered df2_date_col
                      in if ''Date'' \<notin> set (column_names df1') \<or>
                            ''Date'' \<notin> set (column_names df2')
                         then Inl ParseFailure
                         else
                           (case (set_index df1' ''Date'', set_index df2' ''Date'') of
                              (Inr df1_indexed, Inr df2_indexed) \<Rightarrow>
                                compare_indexed float_of_str self pattern
                                  (prod_hier_filter entry) df1_indexed df2_indexed
                            | _ \<Rightarrow> Inl (ComparisonError KeyError)))
                 | _ \<Rightarrow> Inl DateColumnNotFound))))"

section \<open>Notions of the specification: substrings\<close>

text \<open>\<open>p\<close> occurs in \<open>s\<close> as a contiguous piece.\<close>

definition is_substring :: "string \<Rightarrow> string \<Rightarrow> bool" where
  "is_substring p s = (\<exists>a b. s = a @ p @ b)"

section \<open>Notions of the specification: the comparison loop\<close>

text \<open>
  The pairs the loop visits, columns outside and dates inside; what the code computes
  for one of them (the two cells, \<open>is_different\<close> and \<open>difference\<close>); and the test of the
  specification: judged different, and a difference above the threshold.
\<close>

definition pairs :: "(string \<times> string) list \<Rightarrow> scalar list \<Rightarrow> (string \<times> string \<times> scalar) list" where
  "pairs column_map dates =
     concat (map (\<lambda>(col1, col2). map (\<lambda>date. (col1, col2, date)) dates) column_map)"

definition judged ::
  "(string \<Rightarrow> pyfloat option) \<Rightarrow> comparator \<Rightarrow> dataframe \<Rightarrow> dataframe \<Rightarrow>
     string \<times> string \<times> scalar \<Rightarrow> py_exception + (scalar \<times> scalar \<times> bool option \<times> pyfloat)" where
  "judged float_of_str self df1 df2 p =
     (case p of (col1, col2, date) \<Rightarrow>
      (case df_at df1 date col1 of
         Inl e \<Rightarrow> Inl e
       | Inr val1 \<Rightarrow>
      (case df_at df2 date col2 of
         Inl e \<Rightarrow> Inl e
       | Inr val2 \<Rightarrow>
      (case compare_values float_of_str self val1 val2 of
         Inl e \<Rightarrow> Inl e
       | Inr (is_different, d) \<Rightarrow> Inr (val1, val2, is_different, d)))))"

definition significant ::
  "(string \<Rightarrow> pyfloat option) \<Rightarrow> comparator \<Rightarrow> dataframe \<Rightarrow> dataframe \<Rightarrow>
     string \<times> string \<times> scalar \<Rightarrow> bool" where
  "significant float_of_str self df1 df2 p =
     (case judged float_of_str self df1 df2 p of
        Inl e \<Rightarrow> False
      | Inr (val1, val2, is_different, d) \<Rightarrow>
          is_different = Some True \<and> (case d of FNaN \<Rightarrow> False | Fin x \<Rightarrow> threshold self < x))"

definition record_of ::
  "(string \<Rightarrow> pyfloat option) \<Rightarrow> comparator \<Rightarrow> dataframe \<Rightarrow> dataframe \<Rightarrow>
     string \<times> string \<times> scalar \<Rightarrow> mismatch_record" where
  "record_of float_of_str self df1 df2 p =
     (case p of (col1, col2, date) \<Rightarrow>
      (case judged float_of_str self df1 df2 p of
         Inr (val1, val2, is_different, d) \<Rightarrow>
           \<lparr>mr_date = (case date of Ts t \<Rightarrow> t | _ \<Rightarrow> 0), column_file_1 = col1,
            value_file_1 = val1, column_file_2 = col2, value_file_2 = val2,
            mr_difference = d, above_threshold = True\<rparr>
       | Inl e \<Rightarrow>
           \<lparr>mr_date = 0, column_file_1 = col1, value_file_1 = PyNone, column_file_2 = col2,
            value_file_2 = PyNone, mr_difference = FNaN, above_threshold = False\<rparr>))"

section \<open>Example data: indexed frames\<close>

text \<open>
  Two frames already indexed by date (1 and 8 January 2024). The strings in them are no
  float literals, so Python's \<open>float\<close> raises on each: in the examples the parameter
  \<open>float_of_str\<close> is \<open>\<lambda>s. None\<close>.
\<close>

definition example_unify :: dataframe where
  "example_unify =
     \<lparr>index = [Ts 1704067200000000000, Ts 1704672000000000000],
      columns =
        [(''Hypermarkets (7011)'', \<lparr>dtype_object = False, cells = [Num (Fin 100), Num (Fin 5)]\<rparr>),
         (''SSS (7013)'', \<lparr>dtype_object = True, cells = [Str ''a'', Str ''n/a'']\<rparr>)]\<rparr>"

definition example_extract :: dataframe where
  "example_extract =
     \<lparr>index = [Ts 1704067200000000000, Ts 1704672000000000000],
      columns =
        [(''Hypermarkets (7011)'',
            \<lparr>dtype_object = False, cells = [Num (Fin (10002 / 100)), Num (Fin (501 / 100))]\<rparr>),
         (''SSS (7013)'', \<lparr>dtype_object = True, cells = [Str ''b'', Str ''n/a'']\<rparr>)]\<rparr>"

section \<open>Notions of the specification: column alignment\<close>




section \<open>Notions of the specification: rows\<close>

text \<open>
  A row of a frame: its label and its cells by column name. \<open>rows_of\<close> lists the rows
  from top to bottom.
\<close>

type_synonym row = "scalar \<times> (string \<times> scalar) list"

definition row_at :: "dataframe \<Rightarrow> nat \<Rightarrow> row" where
  "row_at df i = (index df ! i, map (\<lambda>(name, col). (name, cells col ! i)) (columns df))"

definition rows_of :: "dataframe \<Rightarrow> row list" where
  "rows_of df = map (row_at df) [0..<length (index df)]"

definition row_cell :: "row \<Rightarrow> string \<Rightarrow> scalar option" where
  "row_cell r name = map_of (snd r) name"

text \<open>Two frames with a \<open>ProdHier\<close> column, as read from the file.\<close>

definition example_extract_raw :: dataframe where
  "example_extract_raw =
     \<lparr>index = [Num (Fin 0), Num (Fin 1), Num (Fin 2)],
      columns =
        [(''ProdHier'', \<lparr>dtype_object = True,
            cells = [Str ''01-APROTEICO_3'', Str ''01-aproteico_3'', Str ''02-CATEGORY_1'']\<rparr>),
         (''Hypermarkets (7011)'', \<lparr>dtype_object = False,
            cells = [Num (Fin 10), Num (Fin 20), Num (Fin 30)]\<rparr>)]\<rparr>"

definition example_extract_lowercase :: dataframe where
  "example_extract_lowercase =
     \<lparr>index = [Num (Fin 0)],
      columns =
        [(''ProdHier'', \<lparr>dtype_object = True, cells = [Str ''01-aproteico_3'']\<rparr>),
         (''Hypermarkets (7011)'', \<lparr>dtype_object = False, cells = [Num (Fin 20)]\<rparr>)]\<rparr>"

section \<open>Example data: dates\<close>

text \<open>
  What \<open>pd.to_datetime\<close> answers on the columns of the examples: two columns of ISO
  dates, the first of these dates alone, a column whose second value is the string
  \<open>garbage\<close> (the call raises), and, with \<open>dayfirst=True\<close>, a \<open>DD-MM-YYYY\<close> text followed by
  NaN (7 January 2024, then \<open>NaT\<close>). The table stands for the library on these columns
  only; on any other column its answer is a placeholder.
\<close>

definition example_to_datetime :: to_datetime_fun where
  "example_to_datetime dayfirst vs =
     (if \<not> dayfirst \<and> vs = [Str ''2024-01-01'', Str ''2024-01-08'']
        then Inr [Ts 1704067200000000000, Ts 1704672000000000000]
      else if \<not> dayfirst \<and> vs = [Str ''2024-01-08'', Str ''2024-01-15'']
        then Inr [Ts 1704672000000000000, Ts 1705276800000000000]
      else if \<not> dayfirst \<and> vs = [Str ''2024-01-01'']
        then Inr [Ts 1704067200000000000]
      else if \<not> dayfirst \<and> vs = [Str ''2024-01-01'', Str ''garbage'']
        then Inl ValueError
      else if dayfirst \<and> vs = [Str ''07-01-2024'', Num FNaN]
        then Inr [Ts 1704585600000000000, NaT]
      else Inl ValueError)"

text \<open>A date column whose first row holds \<open>Week ending\<close> and whose second row does not.\<close>

definition example_week_column :: column where
  "example_week_column =
     \<lparr>dtype_object = True, cells = [Str ''Week ending 07-01-2024'', Str ''2024-01-14'']\<rparr>"

text \<open>
  Frames as read from the files, with their dates in a column \<open>Time\<close>; in
  \<open>example_unify_garbage\<close> the second date cannot be parsed.
\<close>

definition example_unify_dated :: dataframe where
  "example_unify_dated =
     \<lparr>index = [Num (Fin 0), Num (Fin 1)],
      columns =
        [(''Time'', \<lparr>dtype_object = True, cells = [Str ''2024-01-01'', Str ''2024-01-08'']\<rparr>),
         (''Hypermarkets (7011)'', \<lparr>dtype_object = False,
            cells = [Num (Fin 100), Num (Fin 5)]\<rparr>)]\<rparr>"

definition example_unify_garbage :: dataframe where
  "example_unify_garbage =
     \<lparr>index = [Num (Fin 0), Num (Fin 1)],
      columns =
        [(''Time'', \<lparr>dtype_object = True, cells = [Str ''2024-01-01'', Str ''garbage'']\<rparr>),
         (''Hypermarkets (7011)'', \<lparr>dtype_object = False,
            cells = [Num (Fin 100), Num (Fin 5)]\<rparr>)]\<rparr>"

definition example_extract_dated :: dataframe where
  "example_extract_dated =
     \<lparr>index = [Num (Fin 0), Num (Fin 1), Num (Fin 2)],
      columns =
        [(''ProdHier'', \<lparr>dtype_object = True,
            cells = [Str ''01-APROTEICO_3'', Str ''01-APROTEICO_3'', Str ''02-CATEGORY_1'']\<rparr>),
         (''Time'', \<lparr>dtype_object = True,
            cells = [Str ''2024-01-08'', Str ''2024-01-15'', Str ''2024-01-01'']\<rparr>),
         (''Hypermarkets (7011)'', \<lparr>dtype_object = False,
            cells = [Num (Fin (501 / 100)), Num (Fin 7), Num (Fin 9)]\<rparr>)]\<rparr>"

section \<open>Strings and file names: lemmas\<close>

lemma starts_with_iff: "starts_with p s \<longleftrightarrow> (\<exists>b. s = p @ b)"
  by (induction p s rule: starts_with.induct) auto

lemma str_in_iff: "str_in p s \<longleftrightarrow> is_substring p s"
proof (induction s)
  case Nil
  then show ?case by (auto simp: is_substring_def)
next
  case (Cons c cs)
  have "is_substring p (c # cs) \<longleftrightarrow> (\<exists>b. c # cs = p @ b) \<or> is_substring p cs"
    unfolding is_substring_def
  proof
    assume "\<exists>a b. c # cs = a @ p @ b"
    then obtain a b where ab: "c # cs = a @ p @ b" by blast
    show "(\<exists>b. c # cs = p @ b) \<or> (\<exists>a b. cs = a @ p @ b)"
    proof (cases a)
      case Nil
      with ab show ?thesis by auto
    next
      case (Cons x a')
      with ab have "cs = a' @ p @ b" by simp
      then show ?thesis by blast
    qed
  next
    assume "(\<exists>b. c # cs = p @ b) \<or> (\<exists>a b. cs = a @ p @ b)"
    then show "\<exists>a b. c # cs = a @ p @ b"
    proof
      assume "\<exists>b. c # cs = p @ b"
      then obtain b where "c # cs = [] @ p @ b" by auto
      then show ?thesis by blast
    next
      assume "\<exists>a b. cs = a @ p @ b"
      then obtain a b where "cs = a @ p @ b" by blast
      then have "c # cs = (c # a) @ p @ b" by simp
      then show ?thesis by blast
    qed
  qed
  with Cons show ?case by (simp add: starts_with_iff)
qed

lemma match_loop_None: "match_loop ks b = None \<longleftrightarrow> (\<forall>k\<in>set ks. \<not> str_in (upper k) b)"
  by (induction ks) auto

lemma match_loop_Some:
  "match_loop ks b = Some n \<longleftrightarrow>
     (\<exists>before after. ks = before @ n # after \<and> str_in (upper n) b \<and>
        (\<forall>k\<in>set before. \<not> str_in (upper k) b))"
proof (induction ks)
  case Nil
  then show ?case by simp
next
  case (Cons k ks)
  show ?case
  proof (cases "str_in (upper k) b")
    case True
    have "(\<exists>before after. k # ks = before @ n # after \<and> str_in (upper n) b \<and>
        (\<forall>k\<in>set before. \<not> str_in (upper k) b)) \<longleftrightarrow> k = n"
    proof
      assume "\<exists>before after. k # ks = before @ n # after \<and> str_in (upper n) b \<and>
        (\<forall>k\<in>set before. \<not> str_in (upper k) b)"
      then obtain before after where h: "k # ks = before @ n # after"
        "\<forall>k\<in>set before. \<not> str_in (upper k) b" by blast
      show "k = n"
      proof (cases before)
        case Nil
        with h show ?thesis by simp
      next
        case (Cons x xs)
        with h True show ?thesis by auto
      qed
    next
      assume "k = n"
      with True have "k # ks = [] @ n # ks \<and> str_in (upper n) b \<and>
        (\<forall>k\<in>set []. \<not> str_in (upper k) b)" by simp
      then show "\<exists>before after. k # ks = before @ n # after \<and> str_in (upper n) b \<and>
        (\<forall>k\<in>set before. \<not> str_in (upper k) b)" by blast
    qed
    with True show ?thesis by auto
  next
    case False
    have "(\<exists>before after. k # ks = before @ n # after \<and> str_in (upper n) b \<and>
        (\<forall>k\<in>set before. \<not> str_in (upper k) b)) \<longleftrightarrow>
        (\<exists>before after. ks = before @ n # after \<and> str_in (upper n) b \<and>
        (\<forall>k\<in>set before. \<not> str_in (upper k) b))" (is "?L \<longleftrightarrow> ?R")
    proof
      assume ?L
      then obtain before after where h: "k # ks = before @ n # after" "str_in (upper n) b"
        "\<forall>k\<in>set before. \<not> str_in (upper k) b" by blast
      show ?R
      proof (cases before)
        case Nil
        with h False show ?thesis by simp
      next
        case (Cons x xs)
        with h have "ks = xs @ n # after \<and> str_in (upper n) b \<and>
           (\<forall>k\<in>set xs. \<not> str_in (upper k) b)" by simp
        then show ?thesis by blast
      qed
    next
      assume ?R
      then obtain before after where h: "ks = before @ n # after" "str_in (upper n) b"
        "\<forall>k\<in>set before. \<not> str_in (upper k) b" by blast
      with False have "k # ks = (k # before) @ n # after \<and> str_in (upper n) b \<and>
           (\<forall>k\<in>set (k # before). \<not> str_in (upper k) b)" by simp
      then show ?L by blast
    qed
    with False Cons show ?thesis by simp
  qed
qed

lemma split_sep_no_sep: "sep \<notin> set s \<Longrightarrow> split_sep sep s = [s]"
  by (induction s) auto

lemma path_name_plain:
  "CHR ''/'' \<notin> set s \<Longrightarrow> s \<noteq> [] \<Longrightarrow> s \<noteq> ''.'' \<Longrightarrow> path_name s = s"
  by (simp add: path_name_def split_sep_no_sep)

lemma rfind_notin: "c \<notin> set s \<Longrightarrow> rfind c s = -1"
  by (induction s) (auto simp: Let_def)

lemma rfind_ge: "rfind c s \<ge> -1"
  by (induction s) (auto simp: Let_def)

lemma rfind_last: "c \<notin> set e \<Longrightarrow> rfind c (b @ c # e) = int (length b)"
  by (induction b) (auto simp: Let_def rfind_notin)

lemma stem_strips_extension:
  assumes "b \<noteq> []" "e \<noteq> []" "CHR ''.'' \<notin> set e" "CHR ''/'' \<notin> set (b @ e)"
  shows "stem (b @ ''.'' @ e) = b"
proof -
  have n: "path_name (b @ CHR ''.'' # e) = b @ CHR ''.'' # e"
    using assms by (intro path_name_plain) (auto simp: append_eq_Cons_conv)
  have r: "rfind CHR ''.'' (b @ CHR ''.'' # e) = int (length b)"
    using assms rfind_last[of "CHR ''.''" e b] by simp
  show ?thesis using assms by (simp add: stem_def n r Let_def)
qed


section \<open>Properties of the pattern matcher\<close>

text \<open>
  Claim C4. For every file name \<open>f\<close>, \<open>match_filename_to_mapping\<close> is a function of the
  catalog and \<open>f\<close> alone. It answers \<open>None\<close> exactly when no catalog name, upper-cased,
  occurs in the upper-cased stem of \<open>f\<close>, and it answers the name \<open>n\<close> exactly when \<open>n\<close> is
  the first name in the order of the catalog whose upper-cased form occurs in that stem.
  The stem of a plain file name \<open>b.e\<close> is \<open>b\<close>: the extension is stripped.
\<close>

theorem match_filename_first_catalog_entry:
  "(match_filename_to_mapping self f = None \<longleftrightarrow>
      (\<forall>k\<in>set (map fst (mappings self)). \<not> is_substring (upper k) (upper (stem f)))) \<and>
   (\<forall>n. match_filename_to_mapping self f = Some n \<longleftrightarrow>
      (\<exists>before after. map fst (mappings self) = before @ n # after \<and>
         is_substring (upper n) (upper (stem f)) \<and>
         (\<forall>k\<in>set before. \<not> is_substring (upper k) (upper (stem f))))) \<and>
   (\<forall>b e. f = b @ ''.'' @ e \<and> b \<noteq> [] \<and> e \<noteq> [] \<and> CHR ''.'' \<notin> set e \<and>
      CHR ''/'' \<notin> set f \<longrightarrow> stem f = b)"
proof (intro conjI allI impI)
  show "match_filename_to_mapping self f = None \<longleftrightarrow>
      (\<forall>k\<in>set (map fst (mappings self)). \<not> is_substring (upper k) (upper (stem f)))"
    by (simp only: match_filename_to_mapping_def match_loop_None str_in_iff)
next
  fix n
  show "match_filename_to_mapping self f = Some n \<longleftrightarrow>
      (\<exists>before after. map fst (mappings self) = before @ n # after \<and>
         is_substring (upper n) (upper (stem f)) \<and>
         (\<forall>k\<in>set before. \<not> is_substring (upper k) (upper (stem f))))"
    by (simp only: match_filename_to_mapping_def match_loop_Some str_in_iff)
next
  fix b e
  assume "f = b @ ''.'' @ e \<and> b \<noteq> [] \<and> e \<noteq> [] \<and> CHR ''.'' \<notin> set e \<and> CHR ''/'' \<notin> set f"
  then show "stem f = b"
    using stem_strips_extension[of b e] by auto
qed

theorem match_filename_first_catalog_entry_witness:
  "match_filename_to_mapping default_comparator ''IT_2393_APROTEICI_D156.xlsx'' = Some ''APROTEICI'' \<and>
   is_substring (upper ''APROTEICI'') (upper (stem ''IT_2393_APROTEICI_D156.xlsx'')) \<and>
   stem ''IT_2393_APROTEICI_D156.xlsx'' = ''IT_2393_APROTEICI_D156'' \<and>
   match_filename_to_mapping default_comparator ''report.xlsx'' = None \<and>
   \<not> is_substring (upper ''SALSE'') (upper (stem ''report.xlsx''))"
proof -
  let ?f = "''IT_2393_APROTEICI_D156.xlsx''"
  have m: "match_filename_to_mapping default_comparator ?f = Some ''APROTEICI''"
    by code_simp
  have n: "match_filename_to_mapping default_comparator ''report.xlsx'' = None"
    by code_simp
  have k: "''SALSE'' \<in> set (map fst (mappings default_comparator))"
    by code_simp
  note t = match_filename_first_catalog_entry[of default_comparator ?f]
  note u = match_filename_first_catalog_entry[of default_comparator "''report.xlsx''"]
  from t m have "is_substring (upper ''APROTEICI'') (upper (stem ?f))" by blast
  moreover from t have "stem ?f = ''IT_2393_APROTEICI_D156''"
    by (elim conjE allE[of _ "''IT_2393_APROTEICI_D156''"] allE[of _ "''xlsx''"]) simp
  moreover from u n k have "\<not> is_substring (upper ''SALSE'') (upper (stem ''report.xlsx''))"
    by blast
  ultimately show ?thesis using m n by blast
qed

text \<open>
  Claim C5. \<open>validate_file_mappings\<close> fails with \<open>UnmappedFile\<close> exactly when one of the
  two names matches no catalog entry, and the list of failing files then holds the
  label of file 1 exactly when file 1 has no match, the label of file 2 exactly when
  file 2 has no match, and nothing else. When both names match, it fails with
  \<open>PatternMismatch\<close> if the entries differ (whichever file comes first) and returns the
  shared entry otherwise.
\<close>

theorem validate_file_mappings_cases:
  "(validate_file_mappings self a b =
      (case (match_filename_to_mapping self a, match_filename_to_mapping self b) of
         (Some p, Some q) \<Rightarrow> if p = q then Inr p else Inl (PatternMismatch p q)
       | (None, Some q) \<Rightarrow>
           Inl (UnmappedFile [''File 1: '' @ path_name a] (map fst (mappings self)))
       | (Some p, None) \<Rightarrow>
           Inl (UnmappedFile [''File 2: '' @ path_name b] (map fst (mappings self)))
       | (None, None) \<Rightarrow>
           Inl (UnmappedFile [''File 1: '' @ path_name a, ''File 2: '' @ path_name b]
                  (map fst (mappings self))))) \<and>
   (\<forall>missing catalog. validate_file_mappings self a b = Inl (UnmappedFile missing catalog) \<longrightarrow>
      (''File 1: '' @ path_name a \<in> set missing \<longleftrightarrow> match_filename_to_mapping self a = None) \<and>
      (''File 2: '' @ path_name b \<in> set missing \<longleftrightarrow> match_filename_to_mapping self b = None) \<and>
      set missing \<subseteq> {''File 1: '' @ path_name a, ''File 2: '' @ path_name b}) \<and>
   ((\<exists>missing catalog. validate_file_mappings self a b = Inl (UnmappedFile missing catalog)) \<longleftrightarrow>
      match_filename_to_mapping self a = None \<or> match_filename_to_mapping self b = None) \<and>
   ((\<exists>p q. validate_file_mappings self a b = Inl (PatternMismatch p q)) \<longleftrightarrow>
      (\<exists>p q. validate_file_mappings self b a = Inl (PatternMismatch p q)))"
proof -
  have c: "validate_file_mappings self x y =
      (case (match_filename_to_mapping self x, match_filename_to_mapping self y) of
         (Some p, Some q) \<Rightarrow> if p = q then Inr p else Inl (PatternMismatch p q)
       | (None, Some q) \<Rightarrow>
           Inl (UnmappedFile [''File 1: '' @ path_name x] (map fst (mappings self)))
       | (Some p, None) \<Rightarrow>
           Inl (UnmappedFile [''File 2: '' @ path_name y] (map fst (mappings self)))
       | (None, None) \<Rightarrow>
           Inl (UnmappedFile [''File 1: '' @ path_name x, ''File 2: '' @ path_name y]
                  (map fst (mappings self))))" for x y
    by (simp add: validate_file_mappings_def Let_def split: option.splits)
  show ?thesis
    apply (intro conjI)
       apply (rule c)
      apply (auto simp: c split: option.splits if_splits)
    done
qed

theorem validate_file_mappings_cases_witness:
  "validate_file_mappings default_comparator ''x_salse.xlsx'' ''foo.xlsx'' =
     Inl (UnmappedFile [''File 2: foo.xlsx'']
            [''APROTEICI'', ''INFANZIA'', ''Sauces'', ''SALSE'', ''GLUTINE'']) \<and>
   ''File 1: x_salse.xlsx'' \<notin> set [''File 2: foo.xlsx''] \<and>
   match_filename_to_mapping default_comparator ''x_salse.xlsx'' \<noteq> None \<and>
   match_filename_to_mapping default_comparator ''foo.xlsx'' = None"
proof -
  have v: "validate_file_mappings default_comparator ''x_salse.xlsx'' ''foo.xlsx'' =
     Inl (UnmappedFile [''File 2: foo.xlsx'']
            [''APROTEICI'', ''INFANZIA'', ''Sauces'', ''SALSE'', ''GLUTINE''])"
    by code_simp
  have p: "path_name ''x_salse.xlsx'' = ''x_salse.xlsx''" "path_name ''foo.xlsx'' = ''foo.xlsx''"
    by code_simp+
  note t = validate_file_mappings_cases[of default_comparator "''x_salse.xlsx''" "''foo.xlsx''"]
  from t v have
    "(''File 1: '' @ path_name ''x_salse.xlsx'' \<in> set [''File 2: foo.xlsx''] \<longleftrightarrow>
        match_filename_to_mapping default_comparator ''x_salse.xlsx'' = None) \<and>
     (''File 2: '' @ path_name ''foo.xlsx'' \<in> set [''File 2: foo.xlsx''] \<longleftrightarrow>
        match_filename_to_mapping default_comparator ''foo.xlsx'' = None)"
    by blast
  then show ?thesis using v by (simp add: p)
qed

section \<open>Properties of the comparison loop\<close>

lemma fgt_iff: "fgt d t \<longleftrightarrow> (case d of FNaN \<Rightarrow> False | Fin x \<Rightarrow> t < x)"
  by (cases d) auto

lemma strftime_Inr: "strftime date = Inr t \<longleftrightarrow> date = Ts t"
  by (cases date) auto

lemma compare_cell_Inr:
  assumes "compare_cell fos self df1 df2 c1 c2 date (rows, tot, sg) = Inr st'"
  shows "(\<exists>r. judged fos self df1 df2 (c1, c2, date) = Inr r) \<and>
         (significant fos self df1 df2 (c1, c2, date) \<longrightarrow> (\<exists>t. date = Ts t)) \<and>
         st' = (if significant fos self df1 df2 (c1, c2, date)
                then (rows @ [record_of fos self df1 df2 (c1, c2, date)], tot + 1, sg + 1)
                else (rows, tot + 1, sg))"
  using assms
  by (auto simp: compare_cell_def judged_def significant_def record_of_def fgt_iff strftime_Inr
      split: sum.splits prod.splits if_splits pyfloat.splits)

lemma compare_dates_Inr:
  "compare_dates fos self df1 df2 c1 c2 dates (rows, tot, sg) = Inr (rows', tot', sg') \<Longrightarrow>
   (\<forall>d\<in>set dates. \<exists>r. judged fos self df1 df2 (c1, c2, d) = Inr r) \<and>
   (\<forall>d\<in>set dates. significant fos self df1 df2 (c1, c2, d) \<longrightarrow> (\<exists>t. d = Ts t)) \<and>
   rows' = rows @ map (record_of fos self df1 df2)
                    (filter (significant fos self df1 df2) (map (\<lambda>d. (c1, c2, d)) dates)) \<and>
   tot' = tot + length dates \<and>
   sg' = sg + length (filter (significant fos self df1 df2) (map (\<lambda>d. (c1, c2, d)) dates))"
proof (induction dates arbitrary: rows tot sg)
  case Nil
  then show ?case by simp
next
  case (Cons d dates)
  from Cons.prems obtain st where
    c: "compare_cell fos self df1 df2 c1 c2 d (rows, tot, sg) = Inr st" and
    r: "compare_dates fos self df1 df2 c1 c2 dates st = Inr (rows', tot', sg')"
    by (auto split: sum.splits)
  note h = compare_cell_Inr[OF c]
  show ?case
  proof (cases "significant fos self df1 df2 (c1, c2, d)")
    case True
    with h have st: "st = (rows @ [record_of fos self df1 df2 (c1, c2, d)], tot + 1, sg + 1)"
      by simp
    from Cons.IH[OF r[unfolded st]] h True show ?thesis by simp
  next
    case False
    with h have st: "st = (rows, tot + 1, sg)" by simp
    from Cons.IH[OF r[unfolded st]] h False show ?thesis by simp
  qed
qed

lemma pairs_Cons:
  "pairs ((c1, c2) # cm) dates = map (\<lambda>d. (c1, c2, d)) dates @ pairs cm dates"
  by (simp add: pairs_def)

lemma length_pairs: "length (pairs cm dates) = length cm * length dates"
  by (induction cm) (auto simp: pairs_def)

lemma compare_columns_Inr:
  "compare_columns fos self df1 df2 cm dates (rows, tot, sg) = Inr (rows', tot', sg') \<Longrightarrow>
   (\<forall>p\<in>set (pairs cm dates). \<exists>r. judged fos self df1 df2 p = Inr r) \<and>
   (\<forall>p\<in>set (pairs cm dates). significant fos self df1 df2 p \<longrightarrow> (\<exists>t. snd (snd p) = Ts t)) \<and>
   rows' = rows @ map (record_of fos self df1 df2)
                    (filter (significant fos self df1 df2) (pairs cm dates)) \<and>
   tot' = tot + length (pairs cm dates) \<and>
   sg' = sg + length (filter (significant fos self df1 df2) (pairs cm dates))"
proof (induction cm arbitrary: rows tot sg)
  case Nil
  then show ?case by (simp add: pairs_def)
next
  case (Cons cc cm)
  obtain c1 c2 where cc: "cc = (c1, c2)" by (cases cc)
  from Cons.prems obtain r1 t1 s1 where
    d: "compare_dates fos self df1 df2 c1 c2 dates (rows, tot, sg) = Inr (r1, t1, s1)" and
    r: "compare_columns fos self df1 df2 cm dates (r1, t1, s1) = Inr (rows', tot', sg')"
    by (auto simp: cc split: sum.splits)
  note h1 = compare_dates_Inr[OF d]
  note h2 = Cons.IH[OF r]
  from h1 h2 show ?case
    unfolding cc pairs_Cons by (auto)
qed

lemma compare_cell_ok:
  assumes "judged fos self df1 df2 (c1, c2, date) = Inr r"
    and "significant fos self df1 df2 (c1, c2, date) \<Longrightarrow> \<exists>t. date = Ts t"
  shows "compare_cell fos self df1 df2 c1 c2 date (rows, tot, sg) =
         Inr (if significant fos self df1 df2 (c1, c2, date)
              then (rows @ [record_of fos self df1 df2 (c1, c2, date)], tot + 1, sg + 1)
              else (rows, tot + 1, sg))"
  using assms
  by (auto simp: compare_cell_def judged_def significant_def record_of_def fgt_iff
      split: sum.splits prod.splits if_splits pyfloat.splits)

lemma compare_dates_ok:
  "\<forall>d\<in>set dates. (\<exists>r. judged fos self df1 df2 (c1, c2, d) = Inr r) \<and>
      (significant fos self df1 df2 (c1, c2, d) \<longrightarrow> (\<exists>t. d = Ts t)) \<Longrightarrow>
   compare_dates fos self df1 df2 c1 c2 dates (rows, tot, sg) =
     Inr (rows @ map (record_of fos self df1 df2)
                   (filter (significant fos self df1 df2) (map (\<lambda>d. (c1, c2, d)) dates)),
          tot + length dates,
          sg + length (filter (significant fos self df1 df2) (map (\<lambda>d. (c1, c2, d)) dates)))"
proof (induction dates arbitrary: rows tot sg)
  case Nil
  then show ?case by simp
next
  case (Cons d dates)
  from Cons.prems obtain r where j: "judged fos self df1 df2 (c1, c2, d) = Inr r"
    and s: "significant fos self df1 df2 (c1, c2, d) \<Longrightarrow> \<exists>t. d = Ts t"
    by auto
  from Cons.prems have rest: "\<forall>d\<in>set dates. (\<exists>r. judged fos self df1 df2 (c1, c2, d) = Inr r) \<and>
      (significant fos self df1 df2 (c1, c2, d) \<longrightarrow> (\<exists>t. d = Ts t))"
    by simp
  show ?case
    by (simp add: compare_cell_ok[OF j s] Cons.IH[OF rest])
qed

lemma compare_columns_ok:
  "\<forall>p\<in>set (pairs cm dates). (\<exists>r. judged fos self df1 df2 p = Inr r) \<and>
      (significant fos self df1 df2 p \<longrightarrow> (\<exists>t. snd (snd p) = Ts t)) \<Longrightarrow>
   compare_columns fos self df1 df2 cm dates (rows, tot, sg) =
     Inr (rows @ map (record_of fos self df1 df2)
                   (filter (significant fos self df1 df2) (pairs cm dates)),
          tot + length (pairs cm dates),
          sg + length (filter (significant fos self df1 df2) (pairs cm dates)))"
proof (induction cm arbitrary: rows tot sg)
  case Nil
  then show ?case by (simp add: pairs_def)
next
  case (Cons cc cm)
  obtain c1 c2 where cc: "cc = (c1, c2)" by (cases cc)
  from Cons.prems have d: "\<forall>d\<in>set dates. (\<exists>r. judged fos self df1 df2 (c1, c2, d) = Inr r) \<and>
      (significant fos self df1 df2 (c1, c2, d) \<longrightarrow> (\<exists>t. d = Ts t))"
    unfolding cc pairs_Cons by auto
  from Cons.prems have rest: "\<forall>p\<in>set (pairs cm dates). (\<exists>r. judged fos self df1 df2 p = Inr r) \<and>
      (significant fos self df1 df2 p \<longrightarrow> (\<exists>t. snd (snd p) = Ts t))"
    unfolding cc pairs_Cons by auto
  show ?case
    unfolding cc pairs_Cons
    by (simp add: compare_dates_ok[OF d] Cons.IH[OF rest])
qed

text \<open>
  Claim C1. The loop over the column pairs and the common dates runs to its end exactly
  when every pair and date can be compared (and every date that gets a record is a
  timestamp). Then \<open>total_comparisons\<close> counts all pairs and dates, and the mismatch list
  holds, in the order of the loop, one record for exactly those that are judged
  different and whose difference is strictly above the threshold;
  \<open>significant_differences\<close> is the length of that list. A difference equal to the
  threshold is not significant; a pair judged different with a difference at most the
  threshold (such as the non-numeric case, difference 0, under a threshold that is not
  negative) is not significant; a pair judged different with a difference above the
  threshold is; and every record has a difference above the threshold.
\<close>

theorem mismatch_iff_different_and_above_threshold:
  "(compare_columns fos self df1 df2 cm dates ([], 0, 0) = Inr (rows, tot, sg) \<longleftrightarrow>
      (\<forall>p\<in>set (pairs cm dates).
          (\<exists>r. judged fos self df1 df2 p = Inr r) \<and>
          (significant fos self df1 df2 p \<longrightarrow> (\<exists>t. snd (snd p) = Ts t))) \<and>
      rows = map (record_of fos self df1 df2)
               (filter (significant fos self df1 df2) (pairs cm dates)) \<and>
      sg = length rows \<and>
      tot = length cm * length dates) \<and>
   (\<forall>p v1 v2 isd.
      judged fos self df1 df2 p = Inr (v1, v2, isd, Fin (threshold self)) \<longrightarrow>
      \<not> significant fos self df1 df2 p) \<and>
   (\<forall>p v1 v2 x.
      judged fos self df1 df2 p = Inr (v1, v2, Some True, Fin x) \<and> x \<le> threshold self \<longrightarrow>
      \<not> significant fos self df1 df2 p) \<and>
   (\<forall>p v1 v2 x.
      judged fos self df1 df2 p = Inr (v1, v2, Some True, Fin x) \<and> threshold self < x \<longrightarrow>
      significant fos self df1 df2 p) \<and>
   (\<forall>p. significant fos self df1 df2 p \<longrightarrow>
      above_threshold (record_of fos self df1 df2 p) \<and>
      (\<exists>x. mr_difference (record_of fos self df1 df2 p) = Fin x \<and> threshold self < x))"
proof (intro conjI)
  show "compare_columns fos self df1 df2 cm dates ([], 0, 0) = Inr (rows, tot, sg) \<longleftrightarrow>
      (\<forall>p\<in>set (pairs cm dates).
          (\<exists>r. judged fos self df1 df2 p = Inr r) \<and>
          (significant fos self df1 df2 p \<longrightarrow> (\<exists>t. snd (snd p) = Ts t))) \<and>
      rows = map (record_of fos self df1 df2)
               (filter (significant fos self df1 df2) (pairs cm dates)) \<and>
      sg = length rows \<and>
      tot = length cm * length dates" (is "?L \<longleftrightarrow> ?R")
  proof
    assume ?L
    from compare_columns_Inr[OF this] show ?R
      by (simp add: length_pairs)
  next
    assume r: ?R
    then have "\<forall>p\<in>set (pairs cm dates). (\<exists>r. judged fos self df1 df2 p = Inr r) \<and>
      (significant fos self df1 df2 p \<longrightarrow> (\<exists>t. snd (snd p) = Ts t))" by blast
    from compare_columns_ok[OF this, of "[]" 0 0] r show ?L
      by (simp add: length_pairs)
  qed
qed (auto simp: significant_def record_of_def split: sum.splits prod.splits pyfloat.splits)

lemma example_loop:
  "compare_columns (\<lambda>s. None) default_comparator example_unify example_extract
     [(''Hypermarkets (7011)'', ''Hypermarkets (7011)''), (''SSS (7013)'', ''SSS (7013)'')]
     [Ts 1704067200000000000, Ts 1704672000000000000] ([], 0, 0) =
   Inr ([\<lparr>mr_date = 1704067200000000000, column_file_1 = ''Hypermarkets (7011)'',
          value_file_1 = Num (Fin 100), column_file_2 = ''Hypermarkets (7011)'',
          value_file_2 = Num (Fin (10002 / 100)), mr_difference = Fin (2 / 100),
          above_threshold = True\<rparr>], 4, 1)"
  apply (simp add: compare_cell_def df_at_def label_positions_def example_unify_def example_extract_def
     compare_values_def default_comparator_def or_zero_def upt_rec)
  done


lemma example_judged_threshold:
  "judged (\<lambda>s. None) default_comparator example_unify example_extract
     (''Hypermarkets (7011)'', ''Hypermarkets (7011)'', Ts 1704672000000000000) =
   Inr (Num (Fin 5), Num (Fin (501 / 100)), Some False, Fin (threshold default_comparator))"
  by (simp add: judged_def df_at_def label_positions_def example_unify_def example_extract_def
     compare_values_def default_comparator_def or_zero_def upt_rec)

lemma example_judged_text:
  "judged (\<lambda>s. None) default_comparator example_unify example_extract
     (''SSS (7013)'', ''SSS (7013)'', Ts 1704067200000000000) =
   Inr (Str ''a'', Str ''b'', Some True, Fin 0)"
  by (simp add: judged_def df_at_def label_positions_def example_unify_def example_extract_def
     compare_values_def default_comparator_def or_zero_def upt_rec)

theorem mismatch_iff_different_and_above_threshold_witness:
  "compare_columns (\<lambda>s. None) default_comparator example_unify example_extract
     [(''Hypermarkets (7011)'', ''Hypermarkets (7011)''), (''SSS (7013)'', ''SSS (7013)'')]
     [Ts 1704067200000000000, Ts 1704672000000000000] ([], 0, 0) =
   Inr ([\<lparr>mr_date = 1704067200000000000, column_file_1 = ''Hypermarkets (7011)'',
          value_file_1 = Num (Fin 100), column_file_2 = ''Hypermarkets (7011)'',
          value_file_2 = Num (Fin (10002 / 100)), mr_difference = Fin (2 / 100),
          above_threshold = True\<rparr>], 4, 1) \<and>
   [\<lparr>mr_date = 1704067200000000000, column_file_1 = ''Hypermarkets (7011)'',
      value_file_1 = Num (Fin 100), column_file_2 = ''Hypermarkets (7011)'',
      value_file_2 = Num (Fin (10002 / 100)), mr_difference = Fin (2 / 100),
      above_threshold = True\<rparr>] =
     map (record_of (\<lambda>s. None) default_comparator example_unify example_extract)
       (filter (significant (\<lambda>s. None) default_comparator example_unify example_extract)
          (pairs [(''Hypermarkets (7011)'', ''Hypermarkets (7011)''), (''SSS (7013)'', ''SSS (7013)'')]
             [Ts 1704067200000000000, Ts 1704672000000000000])) \<and>
   \<not> significant (\<lambda>s. None) default_comparator example_unify example_extract
       (''Hypermarkets (7011)'', ''Hypermarkets (7011)'', Ts 1704672000000000000) \<and>
   \<not> significant (\<lambda>s. None) default_comparator example_unify example_extract
       (''SSS (7013)'', ''SSS (7013)'', Ts 1704067200000000000)"
proof -
  let ?cm = "[(''Hypermarkets (7011)'', ''Hypermarkets (7011)''), (''SSS (7013)'', ''SSS (7013)'')]"
  let ?dates = "[Ts 1704067200000000000, Ts 1704672000000000000]"
  note t = mismatch_iff_different_and_above_threshold[where fos = "\<lambda>s. None" and
      self = default_comparator and ?df1.0 = example_unify and ?df2.0 = example_extract and
      cm = ?cm and dates = ?dates and tot = 4 and sg = 1 and
      rows = "[\<lparr>mr_date = 1704067200000000000, column_file_1 = ''Hypermarkets (7011)'',
          value_file_1 = Num (Fin 100), column_file_2 = ''Hypermarkets (7011)'',
          value_file_2 = Num (Fin (10002 / 100)), mr_difference = Fin (2 / 100),
          above_threshold = True\<rparr>]"]
  from t example_judged_threshold
  have n1: "\<not> significant (\<lambda>s. None) default_comparator example_unify example_extract
       (''Hypermarkets (7011)'', ''Hypermarkets (7011)'', Ts 1704672000000000000)"
    by blast
  have "(0::real) \<le> threshold default_comparator" by (simp add: default_comparator_def)
  with t example_judged_text
  have n2: "\<not> significant (\<lambda>s. None) default_comparator example_unify example_extract
       (''SSS (7013)'', ''SSS (7013)'', Ts 1704067200000000000)"
    by blast
  from t example_loop have "[\<lparr>mr_date = 1704067200000000000, column_file_1 = ''Hypermarkets (7011)'',
      value_file_1 = Num (Fin 100), column_file_2 = ''Hypermarkets (7011)'',
      value_file_2 = Num (Fin (10002 / 100)), mr_difference = Fin (2 / 100),
      above_threshold = True\<rparr>] =
     map (record_of (\<lambda>s. None) default_comparator example_unify example_extract)
       (filter (significant (\<lambda>s. None) default_comparator example_unify example_extract)
          (pairs ?cm ?dates))" by blast
  with n1 n2 example_loop show ?thesis by blast
qed

section \<open>Properties of the comparison of two values\<close>

text \<open>
  Claim C2, at a cell that pandas reports as missing with NaN: \<open>val or 0\<close> keeps the NaN,
  since NaN is a true value in Python, and the difference \<open>compare_values\<close> returns is
  NaN, whatever the value on the other side. With \<open>None\<close> on the missing side the
  difference is the absolute value of the other side.
\<close>

theorem compare_values_one_side_missing:
  "compare_values float_of_str self (Num FNaN) (Num (Fin x)) = Inr (Some True, FNaN) \<and>
   compare_values float_of_str self (Num (Fin x)) (Num FNaN) = Inr (Some True, FNaN) \<and>
   compare_values float_of_str self PyNone (Num (Fin x)) = Inr (Some True, Fin \<bar>x\<bar>) \<and>
   compare_values float_of_str self (Num (Fin x)) PyNone = Inr (Some True, Fin \<bar>x\<bar>)"
  by (simp add: compare_values_def or_zero_def)

section \<open>Properties of the common and the new dates\<close>

lemma set_unique: "set (unique xs) = set xs"
  by (induction xs rule: unique.induct) auto

lemma distinct_unique: "distinct (unique xs)"
  by (induction xs rule: unique.induct) (auto simp: set_unique)

lemma set_index_intersection: "set (index_intersection a b) = set a \<inter> set b"
  by (auto simp: index_intersection_def set_unique)

lemma set_index_difference: "set (index_difference b a) = set b - set a"
  by (auto simp: index_difference_def set_unique)

text \<open>
  Claim C3. \<open>common_dates\<close> holds exactly the labels that are in both date indexes and
  \<open>new_dates\<close> exactly those of the second index that are not in the first, each label
  once; so every label of the second index is in exactly one of the two. The comparison
  of the two indexed frames fails with \<open>NoCommonDates\<close> exactly when the two indexes
  share no label, and a successful comparison reports these two lists.
\<close>

theorem common_and_new_dates_partition:
  "set (index_intersection (index df1) (index df2)) = set (index df1) \<inter> set (index df2) \<and>
   set (index_difference (index df2) (index df1)) = set (index df2) - set (index df1) \<and>
   distinct (index_intersection (index df1) (index df2)) \<and>
   distinct (index_difference (index df2) (index df1)) \<and>
   (\<forall>d\<in>set (index df2).
      (d \<in> set (index_intersection (index df1) (index df2))) \<noteq>
      (d \<in> set (index_difference (index df2) (index df1)))) \<and>
   (compare_indexed float_of_str self pattern filter_value df1 df2 = Inl NoCommonDates \<longleftrightarrow>
      set (index df1) \<inter> set (index df2) = {}) \<and>
   (\<forall>out. compare_indexed float_of_str self pattern filter_value df1 df2 = Inr out \<longrightarrow>
      common_dates out = index_intersection (index df1) (index df2) \<and>
      new_dates out = index_difference (index df2) (index df1))"
proof -
  have e: "index_intersection (index df1) (index df2) = [] \<longleftrightarrow>
           set (index df1) \<inter> set (index df2) = {}"
    using set_index_intersection[of "index df1" "index df2"] by (metis set_empty)
  have n: "compare_indexed float_of_str self pattern filter_value df1 df2 = Inl NoCommonDates \<longleftrightarrow>
      set (index df1) \<inter> set (index df2) = {}"
    unfolding e[symmetric]
    by (simp add: compare_indexed_def Let_def split: sum.splits prod.splits)
  have o: "\<forall>out. compare_indexed float_of_str self pattern filter_value df1 df2 = Inr out \<longrightarrow>
      common_dates out = index_intersection (index df1) (index df2) \<and>
      new_dates out = index_difference (index df2) (index df1)"
    by (auto simp: compare_indexed_def Let_def split: sum.splits prod.splits if_splits)
  have p: "\<forall>d\<in>set (index df2).
      (d \<in> set (index_intersection (index df1) (index df2))) \<noteq>
      (d \<in> set (index_difference (index df2) (index df1)))"
    by (auto simp: set_index_intersection set_index_difference)
  show ?thesis
    using n o p
    by (simp only: set_index_intersection set_index_difference distinct_unique
        index_intersection_def index_difference_def set_unique simp_thms) auto
qed


theorem common_and_new_dates_partition_witness:
  "index_intersection [Ts 1704067200000000000, Ts 1704672000000000000]
     [Ts 1704672000000000000, Ts 1705276800000000000] = [Ts 1704672000000000000] \<and>
   index_difference [Ts 1704672000000000000, Ts 1705276800000000000]
     [Ts 1704067200000000000, Ts 1704672000000000000] = [Ts 1705276800000000000] \<and>
   ((Ts 1705276800000000000 \<in> set (index_intersection
        [Ts 1704067200000000000, Ts 1704672000000000000]
        [Ts 1704672000000000000, Ts 1705276800000000000])) \<noteq>
    (Ts 1705276800000000000 \<in> set (index_difference
        [Ts 1704672000000000000, Ts 1705276800000000000]
        [Ts 1704067200000000000, Ts 1704672000000000000]))) \<and>
   compare_indexed (\<lambda>s. None) default_comparator ''APROTEICI'' ''01-APROTEICO_3''
     \<lparr>index = [Ts 1704067200000000000], columns = []\<rparr>
     \<lparr>index = [Ts 1705276800000000000], columns = []\<rparr> = Inl NoCommonDates"
proof -
  let ?a = "\<lparr>index = [Ts 1704067200000000000, Ts 1704672000000000000], columns = []\<rparr>"
  let ?b = "\<lparr>index = [Ts 1704672000000000000, Ts 1705276800000000000], columns = []\<rparr>"
  note t = common_and_new_dates_partition[of ?a ?b "\<lambda>s. None" default_comparator
      "''APROTEICI''" "''01-APROTEICO_3''"]
  note u = common_and_new_dates_partition[of
      "\<lparr>index = [Ts 1704067200000000000], columns = []\<rparr>"
      "\<lparr>index = [Ts 1705276800000000000], columns = []\<rparr>"
      "\<lambda>s. None" default_comparator "''APROTEICI''" "''01-APROTEICO_3''"]
  have i: "index_intersection [Ts 1704067200000000000, Ts 1704672000000000000]
     [Ts 1704672000000000000, Ts 1705276800000000000] = [Ts 1704672000000000000]"
    by (simp add: index_intersection_def)
  have d: "index_difference [Ts 1704672000000000000, Ts 1705276800000000000]
     [Ts 1704067200000000000, Ts 1704672000000000000] = [Ts 1705276800000000000]"
    by (simp add: index_difference_def)
  have m: "Ts 1705276800000000000 \<in> set (index ?b)" by simp
  from t m have p: "(Ts 1705276800000000000 \<in> set (index_intersection (index ?a) (index ?b))) \<noteq>
    (Ts 1705276800000000000 \<in> set (index_difference (index ?b) (index ?a)))"
    by blast
  from u have n: "compare_indexed (\<lambda>s. None) default_comparator ''APROTEICI'' ''01-APROTEICO_3''
     \<lparr>index = [Ts 1704067200000000000], columns = []\<rparr>
     \<lparr>index = [Ts 1705276800000000000], columns = []\<rparr> = Inl NoCommonDates"
    by simp
  from i d p n show ?thesis by simp
qed

section \<open>Properties of the column alignment\<close>




lemma column_names_take_rows: "column_names (take_rows df ps) = column_names df"
  by (simp add: column_names_def take_rows_def comp_def case_prod_beta)


lemma mapping_loop_skip:
  "find_col t cols1 = None \<or> find_col t cols2 = None \<Longrightarrow>
   mapping_loop (t # rest) cols1 cols2 cm = mapping_loop rest cols1 cols2 cm"
  by (auto simp: match_truthy_def)

lemma mapping_loop_append:
  "mapping_loop (ts1 @ ts2) cols1 cols2 cm =
     mapping_loop ts2 cols1 cols2 (mapping_loop ts1 cols1 cols2 cm)"
  by (induction ts1 arbitrary: cm) (auto simp: Let_def)

lemma dict_set_entries: "(a, b) \<in> set (dict_set d k v) \<Longrightarrow> (a, b) = (k, v) \<or> (a, b) \<in> set d"
  by (induction d k v rule: dict_set.induct) (auto split: if_splits)

lemma mapping_loop_entries:
  "(a, b) \<in> set (mapping_loop ts cols1 cols2 cm) \<Longrightarrow>
   (a, b) \<in> set cm \<or> (\<exists>t\<in>set ts. find_col t cols1 = Some a \<and> find_col t cols2 = Some b)"
proof (induction ts arbitrary: cm)
  case Nil
  then show ?case by simp
next
  case (Cons t ts)
  let ?cm' = "if match_truthy (find_col t cols1) \<and> match_truthy (find_col t cols2)
              then dict_set cm (the (find_col t cols1)) (the (find_col t cols2)) else cm"
  from Cons.prems have "(a, b) \<in> set (mapping_loop ts cols1 cols2 ?cm')"
    by (simp add: Let_def)
  from Cons.IH[OF this] show ?case
  proof
    assume m: "(a, b) \<in> set ?cm'"
    show ?thesis
    proof (cases "match_truthy (find_col t cols1) \<and> match_truthy (find_col t cols2)")
      case True
      with m have "(a, b) = (the (find_col t cols1), the (find_col t cols2)) \<or> (a, b) \<in> set cm"
        using dict_set_entries[of a b cm "the (find_col t cols1)" "the (find_col t cols2)"]
        by simp
      with True show ?thesis by (auto simp: match_truthy_def split: option.splits)
    next
      case False
      with m show ?thesis by auto
    qed
  next
    assume "\<exists>t\<in>set ts. find_col t cols1 = Some a \<and> find_col t cols2 = Some b"
    then show ?thesis by auto
  qed
qed



text \<open>
  Claim C9. Every entry of the column correspondence comes from an expected name of the
  catalog entry whose first match in the first source is the key and whose first match
  in the second source is the value: a name contributes only with a match on both
  sides. A name with a match on exactly one side contributes nothing: the
  correspondence is the one computed without that name, and alone it gives the empty
  correspondence.
\<close>

theorem partial_match_discarded:
  "(\<forall>a b. (a, b) \<in> set (get_column_mapping self pattern cols1 cols2) \<longrightarrow>
      (\<exists>entry t. map_of (mappings self) pattern = Some entry \<and> t \<in> set (geographies entry) \<and>
         find_col t cols1 = Some a \<and> find_col t cols2 = Some b)) \<and>
   ((find_col t cols1 = None) \<noteq> (find_col t cols2 = None) \<longrightarrow>
      mapping_loop (before @ t # after) cols1 cols2 [] =
        mapping_loop (before @ after) cols1 cols2 [] \<and>
      mapping_loop [t] cols1 cols2 [] = [])"
proof (intro conjI allI impI)
  fix a b
  assume m: "(a, b) \<in> set (get_column_mapping self pattern cols1 cols2)"
  then obtain entry where e: "map_of (mappings self) pattern = Some entry"
    by (cases "map_of (mappings self) pattern") (auto simp: get_column_mapping_def)
  with m have "(a, b) \<in> set (mapping_loop (geographies entry) cols1 cols2 [])"
    by (simp add: get_column_mapping_def)
  from mapping_loop_entries[OF this] e
  show "\<exists>entry t. map_of (mappings self) pattern = Some entry \<and> t \<in> set (geographies entry) \<and>
         find_col t cols1 = Some a \<and> find_col t cols2 = Some b"
    by auto
next
  assume h: "(find_col t cols1 = None) \<noteq> (find_col t cols2 = None)"
  then have k: "find_col t cols1 = None \<or> find_col t cols2 = None" by auto
  show "mapping_loop (before @ t # after) cols1 cols2 [] =
        mapping_loop (before @ after) cols1 cols2 []"
    using mapping_loop_skip[OF k] by (simp only: mapping_loop_append)
next
  assume h: "(find_col t cols1 = None) \<noteq> (find_col t cols2 = None)"
  then have k: "find_col t cols1 = None \<or> find_col t cols2 = None" by auto
  show "mapping_loop [t] cols1 cols2 [] = []"
    using mapping_loop_skip[OF k, of "[]" "[]"] by simp
qed


theorem partial_match_discarded_witness:
  "get_column_mapping default_comparator ''APROTEICI''
     [''SSS (7013)'', ''Hypermarkets (7011)''] [''hypermarkets (7011)''] =
     [(''Hypermarkets (7011)'', ''hypermarkets (7011)'')] \<and>
   find_col ''SSS (7013)'' [''SSS (7013)'', ''Hypermarkets (7011)''] = Some ''SSS (7013)'' \<and>
   find_col ''SSS (7013)'' [''hypermarkets (7011)''] = None \<and>
   mapping_loop [''SSS (7013)''] [''SSS (7013)'', ''Hypermarkets (7011)'']
     [''hypermarkets (7011)''] [] = [] \<and>
   (\<exists>entry t. map_of (mappings default_comparator) ''APROTEICI'' = Some entry \<and>
      t \<in> set (geographies entry) \<and>
      find_col t [''SSS (7013)'', ''Hypermarkets (7011)''] = Some ''Hypermarkets (7011)'' \<and>
      find_col t [''hypermarkets (7011)''] = Some ''hypermarkets (7011)'')"
proof -
  let ?c1 = "[''SSS (7013)'', ''Hypermarkets (7011)'']"
  let ?c2 = "[''hypermarkets (7011)'']"
  have g: "get_column_mapping default_comparator ''APROTEICI'' ?c1 ?c2 =
     [(''Hypermarkets (7011)'', ''hypermarkets (7011)'')]" by code_simp
  have f1: "find_col ''SSS (7013)'' ?c1 = Some ''SSS (7013)''" by code_simp
  have f2: "find_col ''SSS (7013)'' ?c2 = None" by code_simp
  note t = partial_match_discarded[where self = default_comparator and pattern = "''APROTEICI''"
      and ?cols1.0 = ?c1 and ?cols2.0 = ?c2 and t = "''SSS (7013)''"]
  have m: "(''Hypermarkets (7011)'', ''hypermarkets (7011)'') \<in>
      set (get_column_mapping default_comparator ''APROTEICI'' ?c1 ?c2)"
    unfolding g by simp
  from t m have e: "\<exists>entry t. map_of (mappings default_comparator) ''APROTEICI'' = Some entry \<and>
      t \<in> set (geographies entry) \<and>
      find_col t ?c1 = Some ''Hypermarkets (7011)'' \<and>
      find_col t ?c2 = Some ''hypermarkets (7011)''" by blast
  from t f1 f2 have d: "mapping_loop [''SSS (7013)''] ?c1 ?c2 [] = []" by simp
  from g f1 f2 d e show ?thesis by blast
qed

section \<open>Properties of the row filter\<close>

lemma rows_of_take_rows: "rows_of (take_rows df ps) = map (row_at df) ps"
proof -
  have "rows_of (take_rows df ps) = map (\<lambda>i. row_at df (ps ! i)) [0..<length ps]"
    by (auto simp: rows_of_def row_at_def take_rows_def)
  also have "\<dots> = map (row_at df) (map (\<lambda>i. ps ! i) [0..<length ps])"
    by simp
  also have "map (\<lambda>i. ps ! i) [0..<length ps] = ps"
    by (rule map_nth)
  finally show ?thesis .
qed

lemma mask_positions_map:
  "mask_positions (map g xs) = filter (\<lambda>i. g (xs ! i)) [0..<length xs]"
  by (auto simp: mask_positions_def intro: filter_cong)

lemma map_of_cells:
  "map_of (map (\<lambda>(name, col). (name, f col)) cs) name = map_option f (map_of cs name)"
  by (induction cs) auto

lemma row_cell_row_at:
  "row_cell (row_at df i) name = map_option (\<lambda>col. cells col ! i) (map_of (columns df) name)"
  by (simp add: row_cell_def row_at_def map_of_cells)

lemma prodhier_absent:
  "''ProdHier'' \<notin> set (column_names df) \<longleftrightarrow> map_of (columns df) ''ProdHier'' = None"
  by (simp add: column_names_def map_of_eq_None_iff)

lemma wf_column_length:
  "wf_dataframe df \<Longrightarrow> map_of (columns df) name = Some col \<Longrightarrow>
   length (cells col) = length (index df)"
  by (auto simp: wf_dataframe_def list_all_iff dest!: map_of_SomeD)

lemma filter_rows:
  assumes "wf_dataframe df" "map_of (columns df) ''ProdHier'' = Some col"
  shows "rows_of (filter_extract_by_prodhier df v) =
         filter (\<lambda>r. row_cell r ''ProdHier'' = Some (Str v)) (rows_of df)"
proof -
  have len: "length (cells col) = length (index df)"
    using assms by (rule wf_column_length)
  have "rows_of (filter_extract_by_prodhier df v) =
        map (row_at df) (filter (\<lambda>i. cells col ! i = Str v) [0..<length (index df)])"
    using assms(2) by (simp add: filter_extract_by_prodhier_def rows_of_take_rows
        mask_positions_map len)
  also have "\<dots> = filter (\<lambda>r. row_cell r ''ProdHier'' = Some (Str v))
                     (map (row_at df) [0..<length (index df)])"
    using assms(2) by (simp add: filter_map comp_def row_cell_row_at)
  finally show ?thesis by (simp add: rows_of_def)
qed

text \<open>
  Claim C8. Without a column \<open>ProdHier\<close> the filter returns the frame as it is. With one
  (in a frame where every column has one cell per row) it returns, in their order,
  exactly the rows whose \<open>ProdHier\<close> cell is the filter value itself, letter case
  included, and keeps the columns. The filter always returns a frame; once the two
  file names are valid, \<open>compare_files\<close> fails with \<open>EmptyAfterFilter\<close> exactly when the
  frame returned by the filter is empty.
\<close>

theorem filter_extract_by_prodhier_rows:
  "(''ProdHier'' \<notin> set (column_names df) \<longrightarrow> filter_extract_by_prodhier df v = df) \<and>
   (wf_dataframe df \<and> ''ProdHier'' \<in> set (column_names df) \<longrightarrow>
      rows_of (filter_extract_by_prodhier df v) =
        filter (\<lambda>r. row_cell r ''ProdHier'' = Some (Str v)) (rows_of df) \<and>
      column_names (filter_extract_by_prodhier df v) = column_names df) \<and>
   (\<forall>pattern entry.
      validate_file_mappings self unify_name extract_name = Inr pattern \<and>
      map_of (mappings self) pattern = Some entry \<longrightarrow>
      (compare_files float_of_str to_datetime self unify_name extract_name df1 df =
         Inl (EmptyAfterFilter (prod_hier_filter entry)) \<longleftrightarrow>
       empty (filter_extract_by_prodhier df (prod_hier_filter entry))))"
proof (intro conjI impI allI)
  assume "''ProdHier'' \<notin> set (column_names df)"
  then show "filter_extract_by_prodhier df v = df"
    by (simp add: prodhier_absent filter_extract_by_prodhier_def)
next
  assume h: "wf_dataframe df \<and> ''ProdHier'' \<in> set (column_names df)"
  then obtain col where c: "map_of (columns df) ''ProdHier'' = Some col"
    using prodhier_absent[of df] by auto
  with h show "rows_of (filter_extract_by_prodhier df v) =
        filter (\<lambda>r. row_cell r ''ProdHier'' = Some (Str v)) (rows_of df)"
    by (simp add: filter_rows)
  from c show "column_names (filter_extract_by_prodhier df v) = column_names df"
    by (simp add: filter_extract_by_prodhier_def column_names_take_rows)
next
  fix pattern entry
  assume "validate_file_mappings self unify_name extract_name = Inr pattern \<and>
      map_of (mappings self) pattern = Some entry"
  then show "compare_files float_of_str to_datetime self unify_name extract_name df1 df =
         Inl (EmptyAfterFilter (prod_hier_filter entry)) \<longleftrightarrow>
       empty (filter_extract_by_prodhier df (prod_hier_filter entry))"
    by (auto simp: compare_files_def Let_def compare_indexed_def
        split: option.splits sum.splits prod.splits)
qed

theorem filter_extract_by_prodhier_rows_witness:
  "rows_of (filter_extract_by_prodhier example_extract_raw ''01-APROTEICO_3'') =
     [(Num (Fin 0),
       [(''ProdHier'', Str ''01-APROTEICO_3''), (''Hypermarkets (7011)'', Num (Fin 10))])] \<and>
   filter_extract_by_prodhier example_unify ''01-APROTEICO_3'' = example_unify \<and>
   empty (filter_extract_by_prodhier example_extract_lowercase ''01-APROTEICO_3'') \<and>
   compare_files (\<lambda>s. None) example_to_datetime default_comparator
     ''1. Check_Model_Custom_APROTEICI (33).xlsx'' ''IT_2393_APROTEICI_D156.xlsx''
     example_unify example_extract_lowercase = Inl (EmptyAfterFilter ''01-APROTEICO_3'')"
proof -
  let ?entry = "\<lparr>geographies =
         [''Hypermarkets (7011)'', ''SSS (7013)'', ''Supermarkets (7012)'',
          ''Total Generalist Online (6100)'', ''Total Italy (inc. Discount) (7406)'',
          ''Total Italy + Pharma (4380)'', ''Total Italy Hyper+Super+Pharma (4301)'',
          ''Total Italy Pharma (3930)'', ''Total Italy+Pharma+Online (4397)''],
       prod_hier_filter = ''01-APROTEICO_3''\<rparr>"
  note t1 = filter_extract_by_prodhier_rows[where df = example_extract_raw and
      v = "''01-APROTEICO_3''"]
  note t2 = filter_extract_by_prodhier_rows[where df = example_unify and v = "''01-APROTEICO_3''"]
  note t3 = filter_extract_by_prodhier_rows[where df = example_extract_lowercase and
      self = default_comparator and
      unify_name = "''1. Check_Model_Custom_APROTEICI (33).xlsx''" and
      extract_name = "''IT_2393_APROTEICI_D156.xlsx''" and ?df1.0 = example_unify and
      float_of_str = "\<lambda>s. None" and to_datetime = example_to_datetime]
  have w: "wf_dataframe example_extract_raw"
    by (simp add: wf_dataframe_def example_extract_raw_def)
  have c: "''ProdHier'' \<in> set (column_names example_extract_raw)"
    by (simp add: column_names_def example_extract_raw_def)
  have r: "filter (\<lambda>r. row_cell r ''ProdHier'' = Some (Str ''01-APROTEICO_3''))
             (rows_of example_extract_raw) =
     [(Num (Fin 0),
       [(''ProdHier'', Str ''01-APROTEICO_3''), (''Hypermarkets (7011)'', Num (Fin 10))])]"
    by (simp add: rows_of_def row_at_def row_cell_def example_extract_raw_def upt_rec)
  from t1 w c r have a: "rows_of (filter_extract_by_prodhier example_extract_raw ''01-APROTEICO_3'') =
     [(Num (Fin 0),
       [(''ProdHier'', Str ''01-APROTEICO_3''), (''Hypermarkets (7011)'', Num (Fin 10))])]"
    by simp
  have n: "''ProdHier'' \<notin> set (column_names example_unify)"
    by (simp add: column_names_def example_unify_def)
  from t2 n have b: "filter_extract_by_prodhier example_unify ''01-APROTEICO_3'' = example_unify"
    by blast
  have v: "validate_file_mappings default_comparator
      ''1. Check_Model_Custom_APROTEICI (33).xlsx'' ''IT_2393_APROTEICI_D156.xlsx'' =
      Inr ''APROTEICI''"
    by code_simp
  have m: "map_of (mappings default_comparator) ''APROTEICI'' = Some ?entry"
    by (simp add: default_comparator_def BUILT_IN_MAPPINGS_def)
  have e: "empty (filter_extract_by_prodhier example_extract_lowercase ''01-APROTEICO_3'')"
    by (simp add: empty_def filter_extract_by_prodhier_def example_extract_lowercase_def
        take_rows_def mask_positions_def)
  from t3 have "validate_file_mappings default_comparator
      ''1. Check_Model_Custom_APROTEICI (33).xlsx'' ''IT_2393_APROTEICI_D156.xlsx'' =
      Inr ''APROTEICI'' \<and> map_of (mappings default_comparator) ''APROTEICI'' = Some ?entry \<longrightarrow>
    (compare_files (\<lambda>s. None) example_to_datetime default_comparator
     ''1. Check_Model_Custom_APROTEICI (33).xlsx'' ''IT_2393_APROTEICI_D156.xlsx''
     example_unify example_extract_lowercase = Inl (EmptyAfterFilter (prod_hier_filter ?entry)) \<longleftrightarrow>
     empty (filter_extract_by_prodhier example_extract_lowercase (prod_hier_filter ?entry)))"
    by blast
  with v m have "compare_files (\<lambda>s. None) example_to_datetime default_comparator
     ''1. Check_Model_Custom_APROTEICI (33).xlsx'' ''IT_2393_APROTEICI_D156.xlsx''
     example_unify example_extract_lowercase = Inl (EmptyAfterFilter (prod_hier_filter ?entry)) \<longleftrightarrow>
     empty (filter_extract_by_prodhier example_extract_lowercase (prod_hier_filter ?entry))"
    by blast
  with e have d: "compare_files (\<lambda>s. None) example_to_datetime default_comparator
     ''1. Check_Model_Custom_APROTEICI (33).xlsx'' ''IT_2393_APROTEICI_D156.xlsx''
     example_unify example_extract_lowercase = Inl (EmptyAfterFilter ''01-APROTEICO_3'')"
    by simp
  from a b e d show ?thesis by simp
qed

section \<open>Properties of the date normalization\<close>

lemma compare_indexed_not_ParseFailure:
  "compare_indexed fos self pattern fv d1 d2 \<noteq> Inl ParseFailure"
  by (simp add: compare_indexed_def Let_def split: sum.splits prod.splits)

lemma compare_files_ParseFailure:
  assumes "validate_file_mappings self un en = Inr pattern"
    and "map_of (mappings self) pattern = Some entry"
    and "\<not> empty (filter_extract_by_prodhier df2 (prod_hier_filter entry))"
    and "find_date_column df1 = Some c1"
    and "find_date_column (filter_extract_by_prodhier df2 (prod_hier_filter entry)) = Some c2"
  shows "compare_files fos tdt self un en df1 df2 = Inl ParseFailure \<longleftrightarrow>
         ''Date'' \<notin> set (column_names (parse_dates tdt df1 c1)) \<or>
         ''Date'' \<notin> set (column_names
            (parse_dates tdt (filter_extract_by_prodhier df2 (prod_hier_filter entry)) c2))"
proof -
  let ?a = "parse_dates tdt df1 c1"
  let ?b = "parse_dates tdt (filter_extract_by_prodhier df2 (prod_hier_filter entry)) c2"
  have cf: "compare_files fos tdt self un en df1 df2 =
      (if ''Date'' \<notin> set (column_names ?a) \<or> ''Date'' \<notin> set (column_names ?b)
       then Inl ParseFailure
       else (case (set_index ?a ''Date'', set_index ?b ''Date'') of
               (Inr x, Inr y) \<Rightarrow> compare_indexed fos self pattern (prod_hier_filter entry) x y
             | _ \<Rightarrow> Inl (ComparisonError KeyError)))"
    using assms by (simp add: compare_files_def Let_def)
  show ?thesis
    unfolding cf
    by (cases "set_index ?a ''Date''"; cases "set_index ?b ''Date''")
       (auto simp: compare_indexed_not_ParseFailure)
qed

lemma map_of_dict_set: "map_of (dict_set d k v) k = Some v"
  by (induction d k v rule: dict_set.induct) auto

lemma filter_dict_set:
  "filter (\<lambda>(n, c). n \<noteq> k) (dict_set d k v) = filter (\<lambda>(n, c). n \<noteq> k) d"
  by (induction d k v rule: dict_set.induct) auto

lemma set_index_parsed:
  "set_index (df\<lparr>columns := dict_set (columns df) ''Date'' \<lparr>dtype_object = False, cells = ds\<rparr>\<rparr>)
     ''Date'' =
   Inr \<lparr>index = ds, columns = filter (\<lambda>(n, c). n \<noteq> ''Date'') (columns df)\<rparr>"
  by (simp add: set_index_def map_of_dict_set filter_dict_set)

lemma date_pattern_here_take: "date_pattern_here s \<Longrightarrow> date_pattern_here (take 10 s)"
  by (simp add: date_pattern_here_def)

lemma date_pattern_here_length: "date_pattern_here s \<Longrightarrow> length (take 10 s) = 10"
  by (simp add: date_pattern_here_def Let_def)

lemma find_date_pattern_None:
  "find_date_pattern s = None \<longleftrightarrow> (\<forall>a b. s = a @ b \<longrightarrow> \<not> date_pattern_here b)"
proof (induction s)
  case Nil
  then show ?case by (simp add: date_pattern_here_def)
next
  case (Cons c cs)
  have split: "(\<forall>a b. c # cs = a @ b \<longrightarrow> \<not> date_pattern_here b) \<longleftrightarrow>
        \<not> date_pattern_here (c # cs) \<and> (\<forall>a b. cs = a @ b \<longrightarrow> \<not> date_pattern_here b)"
    by (auto simp: Cons_eq_append_conv)
  show ?case unfolding split using Cons by simp
qed

lemma find_date_pattern_Some:
  "find_date_pattern s = Some m \<Longrightarrow>
   \<exists>a b. s = a @ m @ b \<and> length m = 10 \<and> date_pattern_here m \<and>
     (\<forall>a' b'. s = a' @ b' \<and> length a' < length a \<longrightarrow> \<not> date_pattern_here b')"
proof (induction s)
  case Nil
  then show ?case by simp
next
  case (Cons c cs)
  show ?case
  proof (cases "date_pattern_here (c # cs)")
    case True
    with Cons.prems have m: "m = take 10 (c # cs)" by simp
    have "c # cs = [] @ m @ drop 10 (c # cs)" unfolding m by simp
    moreover have "length m = 10" unfolding m using True by (rule date_pattern_here_length)
    moreover have "date_pattern_here m" unfolding m using True by (rule date_pattern_here_take)
    ultimately show ?thesis by (metis length_0_conv not_less0 list.size(3))
  next
    case False
    with Cons.prems have "find_date_pattern cs = Some m" by simp
    from Cons.IH[OF this] obtain a b where h: "cs = a @ m @ b" "length m = 10"
      "date_pattern_here m"
      "\<forall>a' b'. cs = a' @ b' \<and> length a' < length a \<longrightarrow> \<not> date_pattern_here b'"
      by blast
    have "\<forall>a' b'. c # cs = a' @ b' \<and> length a' < length (c # a) \<longrightarrow> \<not> date_pattern_here b'"
    proof (intro allI impI)
      fix a' b'
      assume p: "c # cs = a' @ b' \<and> length a' < length (c # a)"
      show "\<not> date_pattern_here b'"
      proof (cases a')
        case Nil
        with p False show ?thesis by simp
      next
        case (Cons x xs)
        with p have "cs = xs @ b' \<and> length xs < length a" by simp
        with h(4) show ?thesis by blast
      qed
    qed
    moreover have "c # cs = (c # a) @ m @ b" using h(1) by simp
    ultimately show ?thesis using h(2,3) by blast
  qed
qed


text \<open>
  Claim C10. On a date column with at least one row, the branch of \<open>parse_dates\<close> is
  chosen by the dtype and the first row alone: the day-first extraction of
  \<open>DD-MM-YYYY\<close> is applied, to every row of the column, exactly when the dtype is
  \<open>object\<close> and the first row is a string in which \<open>Week ending\<close> occurs; otherwise every
  row is parsed generically. The rows after the first have no part in the choice. (On a
  column without rows the test of the first row raises when the dtype is \<open>object\<close>, and
  the generic branch is taken otherwise.)
\<close>

theorem week_ending_branch_first_row:
  "week_ending_branch \<lparr>dtype_object = obj, cells = v # rest\<rparr> =
     Inr (obj \<and> contains_week_ending v) \<and>
   (\<forall>rest'. week_ending_branch \<lparr>dtype_object = obj, cells = v # rest'\<rparr> =
      week_ending_branch \<lparr>dtype_object = obj, cells = v # rest\<rparr>) \<and>
   (\<forall>s. contains_week_ending (Str s) \<longleftrightarrow> is_substring ''Week ending'' s) \<and>
   week_ending_branch \<lparr>dtype_object = True, cells = []\<rparr> = Inl IndexError \<and>
   week_ending_branch \<lparr>dtype_object = False, cells = []\<rparr> = Inr False \<and>
   date_cells to_datetime \<lparr>dtype_object = obj, cells = v # rest\<rparr> =
     (if obj \<and> contains_week_ending v
      then to_datetime True (map str_extract (v # rest))
      else to_datetime False (v # rest)) \<and>
   (\<forall>col. map_of (columns df) col_name = Some col \<and> cells col = v # rest \<longrightarrow>
      parse_dates to_datetime df col_name =
        (case (if dtype_object col \<and> contains_week_ending v
               then to_datetime True (map str_extract (cells col))
               else to_datetime False (cells col)) of
           Inl e \<Rightarrow> df
         | Inr ds \<Rightarrow>
             df\<lparr>columns := dict_set (columns df) ''Date'' \<lparr>dtype_object = False, cells = ds\<rparr>\<rparr>))"
  by (auto simp: week_ending_branch_def date_cells_def parse_dates_def contains_week_ending_def
      str_in_iff split: sum.splits)

theorem week_ending_branch_first_row_witness:
  "week_ending_branch example_week_column = Inr True \<and>
   \<not> contains_week_ending (Str ''2024-01-14'') \<and>
   date_cells example_to_datetime example_week_column =
     Inr [Ts 1704585600000000000, NaT] \<and>
   is_substring ''Week ending'' ''Week ending 07-01-2024''"
proof -
  note t = week_ending_branch_first_row[where obj = True and v = "Str ''Week ending 07-01-2024''"
      and rest = "[Str ''2024-01-14'']" and to_datetime = example_to_datetime]
  have c: "contains_week_ending (Str ''Week ending 07-01-2024'')"
    by (simp add: contains_week_ending_def)
  have n: "\<not> contains_week_ending (Str ''2024-01-14'')"
    by (simp add: contains_week_ending_def)
  have e: "example_to_datetime True
             (map str_extract [Str ''Week ending 07-01-2024'', Str ''2024-01-14'']) =
           Inr [Ts 1704585600000000000, NaT]"
    by (simp add: str_extract_def date_pattern_here_def is_digit_def example_to_datetime_def)
  from t c have "week_ending_branch example_week_column = Inr True"
    by (simp add: example_week_column_def)
  moreover from t c e have "date_cells example_to_datetime example_week_column =
     Inr [Ts 1704585600000000000, NaT]"
    by (simp add: example_week_column_def)
  moreover from t c have "is_substring ''Week ending'' ''Week ending 07-01-2024''"
    by blast
  ultimately show ?thesis using n by blast
qed


text \<open>
  Claim C7 says that a row whose date cannot be parsed is dropped while the others are
  kept, and that the parse fails only when no row parses. In the generic branch one
  value that cannot be parsed, beside one that can, makes \<open>pd.to_datetime\<close> raise: the
  frame is left without a \<open>Date\<close> column and \<open>compare_files\<close> fails with \<open>ParseFailure\<close>.
  In the \<open>Week ending\<close> branch a row without a date is kept, with the date \<open>NaT\<close>.
\<close>

theorem parse_dates_drops_rows_counterexample:
  "example_to_datetime False [Str ''2024-01-01''] = Inr [Ts 1704067200000000000] \<and>
   example_to_datetime False [Str ''2024-01-01'', Str ''garbage''] = Inl ValueError \<and>
   date_cells example_to_datetime example_week_column =
     Inr [Ts 1704585600000000000, NaT] \<and>
   find_date_column example_unify_garbage = Some ''Time'' \<and>
   parse_dates example_to_datetime example_unify_garbage ''Time'' = example_unify_garbage \<and>
   ''Date'' \<notin> set (column_names (parse_dates example_to_datetime example_unify_garbage ''Time'')) \<and>
   compare_files (\<lambda>s. None) example_to_datetime default_comparator
     ''1. Check_Model_Custom_APROTEICI (33).xlsx'' ''IT_2393_APROTEICI_D156.xlsx''
     example_unify_garbage example_extract_dated = Inl ParseFailure"
proof -
  have p: "parse_dates example_to_datetime example_unify_garbage ''Time'' = example_unify_garbage"
    by (simp add: parse_dates_def date_cells_def week_ending_branch_def contains_week_ending_def
        example_unify_garbage_def example_to_datetime_def)
  have c: "compare_files (\<lambda>s. None) example_to_datetime default_comparator
     ''1. Check_Model_Custom_APROTEICI (33).xlsx'' ''IT_2393_APROTEICI_D156.xlsx''
     example_unify_garbage example_extract_dated = Inl ParseFailure"
    by code_simp
  have f: "find_date_column example_unify_garbage = Some ''Time''"
    by (simp add: find_date_column_def column_names_def example_unify_garbage_def)
  have w: "date_cells example_to_datetime example_week_column =
     Inr [Ts 1704585600000000000, NaT]"
    by (simp add: date_cells_def week_ending_branch_def contains_week_ending_def
        example_week_column_def str_extract_def date_pattern_here_def is_digit_def
        example_to_datetime_def)
  show ?thesis
    unfolding p using c f w
    by (simp add: example_to_datetime_def column_names_def example_unify_garbage_def)
qed

lemma example_to_datetime_length:
  "example_to_datetime dayfirst vs = Inr r \<Longrightarrow> length r = length vs"
  by (auto simp: example_to_datetime_def split: if_splits)

text \<open>
  Claim C7 as amended. The code drops no row during date normalization. It hands the
  whole date column to \<open>pd.to_datetime\<close> in one call with the default \<open>errors='raise'\<close>:
  the cells as they are in the generic branch, and in the \<open>Week ending\<close> branch, for each
  row, the leftmost \<open>DD-MM-YYYY\<close> text of a string cell, or NaN where the cell has none or
  is no string. When the call returns, its result is the new \<open>Date\<close> column and then the
  date index, with one entry per row as soon as \<open>pd.to_datetime\<close> returns as many values
  as it is given. When the call raises, \<open>parse_dates\<close> returns the frame as it was. Once
  the file names are valid, the filtered frame is not empty and both date columns are
  found, \<open>compare_files\<close> fails with \<open>ParseFailure\<close> exactly when one of the two frames has
  no column \<open>Date\<close> after \<open>parse_dates\<close>.
\<close>

theorem parse_dates_all_rows_or_failure:
  "(\<forall>col. map_of (columns df) col_name = Some col \<longrightarrow>
      (week_ending_branch col = Inr False \<longrightarrow>
         date_cells to_datetime col = to_datetime False (cells col)) \<and>
      (week_ending_branch col = Inr True \<longrightarrow>
         date_cells to_datetime col = to_datetime True (map str_extract (cells col))) \<and>
      (\<forall>ds. date_cells to_datetime col = Inr ds \<longrightarrow>
         parse_dates to_datetime df col_name =
           df\<lparr>columns := dict_set (columns df) ''Date'' \<lparr>dtype_object = False, cells = ds\<rparr>\<rparr> \<and>
         set_index (parse_dates to_datetime df col_name) ''Date'' =
           Inr \<lparr>index = ds, columns = filter (\<lambda>(n, c). n \<noteq> ''Date'') (columns df)\<rparr> \<and>
         ((\<forall>dayfirst vs r. to_datetime dayfirst vs = Inr r \<longrightarrow> length r = length vs) \<longrightarrow>
            length ds = length (cells col))) \<and>
      (\<forall>e. date_cells to_datetime col = Inl e \<longrightarrow>
         parse_dates to_datetime df col_name = df)) \<and>
   (\<forall>s. str_extract (Str s) = Num FNaN \<longleftrightarrow> (\<forall>a b. s = a @ b \<longrightarrow> \<not> date_pattern_here b)) \<and>
   (\<forall>s m. str_extract (Str s) = Str m \<longrightarrow>
      (\<exists>a b. s = a @ m @ b \<and> length m = 10 \<and> date_pattern_here m \<and>
         (\<forall>a' b'. s = a' @ b' \<and> length a' < length a \<longrightarrow> \<not> date_pattern_here b'))) \<and>
   (\<forall>v. (\<forall>s. v \<noteq> Str s) \<longrightarrow> str_extract v = Num FNaN) \<and>
   (\<forall>pattern entry c1 c2.
      validate_file_mappings self unify_name extract_name = Inr pattern \<and>
      map_of (mappings self) pattern = Some entry \<and>
      \<not> empty (filter_extract_by_prodhier df2 (prod_hier_filter entry)) \<and>
      find_date_column df = Some c1 \<and>
      find_date_column (filter_extract_by_prodhier df2 (prod_hier_filter entry)) = Some c2 \<longrightarrow>
      (compare_files float_of_str to_datetime self unify_name extract_name df df2 =
         Inl ParseFailure \<longleftrightarrow>
       ''Date'' \<notin> set (column_names (parse_dates to_datetime df c1)) \<or>
       ''Date'' \<notin> set (column_names (parse_dates to_datetime
            (filter_extract_by_prodhier df2 (prod_hier_filter entry)) c2))))"
proof (intro conjI allI impI)
  fix col
  assume "map_of (columns df) col_name = Some col" "week_ending_branch col = Inr False"
  then show "date_cells to_datetime col = to_datetime False (cells col)"
    by (simp add: date_cells_def)
next
  fix col
  assume "map_of (columns df) col_name = Some col" "week_ending_branch col = Inr True"
  then show "date_cells to_datetime col = to_datetime True (map str_extract (cells col))"
    by (simp add: date_cells_def)
next
  fix col ds
  assume c: "map_of (columns df) col_name = Some col" and d: "date_cells to_datetime col = Inr ds"
  show p: "parse_dates to_datetime df col_name =
           df\<lparr>columns := dict_set (columns df) ''Date'' \<lparr>dtype_object = False, cells = ds\<rparr>\<rparr>"
    using c d by (simp add: parse_dates_def)
  show "set_index (parse_dates to_datetime df col_name) ''Date'' =
           Inr \<lparr>index = ds, columns = filter (\<lambda>(n, c). n \<noteq> ''Date'') (columns df)\<rparr>"
    unfolding p by (rule set_index_parsed)
  assume l: "\<forall>dayfirst vs r. to_datetime dayfirst vs = Inr r \<longrightarrow> length r = length vs"
  from d have "to_datetime False (cells col) = Inr ds \<or>
               to_datetime True (map str_extract (cells col)) = Inr ds"
    by (auto simp: date_cells_def split: sum.splits bool.splits)
  with l show "length ds = length (cells col)"
    by (metis length_map)
next
  fix col e
  assume "map_of (columns df) col_name = Some col" "date_cells to_datetime col = Inl e"
  then show "parse_dates to_datetime df col_name = df"
    by (simp add: parse_dates_def)
next
  fix s
  show "str_extract (Str s) = Num FNaN \<longleftrightarrow> (\<forall>a b. s = a @ b \<longrightarrow> \<not> date_pattern_here b)"
    using find_date_pattern_None[of s]
    by (auto simp: str_extract_def split: option.splits)
next
  fix s m
  assume "str_extract (Str s) = Str m"
  then have "find_date_pattern s = Some m"
    by (auto simp: str_extract_def split: option.splits)
  then show "\<exists>a b. s = a @ m @ b \<and> length m = 10 \<and> date_pattern_here m \<and>
         (\<forall>a' b'. s = a' @ b' \<and> length a' < length a \<longrightarrow> \<not> date_pattern_here b')"
    by (rule find_date_pattern_Some)
next
  fix v :: scalar
  assume "\<forall>s. v \<noteq> Str s"
  then show "str_extract v = Num FNaN"
    by (cases v) (auto simp: str_extract_def)
next
  fix pattern entry c1 c2
  assume "validate_file_mappings self unify_name extract_name = Inr pattern \<and>
      map_of (mappings self) pattern = Some entry \<and>
      \<not> empty (filter_extract_by_prodhier df2 (prod_hier_filter entry)) \<and>
      find_date_column df = Some c1 \<and>
      find_date_column (filter_extract_by_prodhier df2 (prod_hier_filter entry)) = Some c2"
  then show "compare_files float_of_str to_datetime self unify_name extract_name df df2 =
         Inl ParseFailure \<longleftrightarrow>
       ''Date'' \<notin> set (column_names (parse_dates to_datetime df c1)) \<or>
       ''Date'' \<notin> set (column_names (parse_dates to_datetime
            (filter_extract_by_prodhier df2 (prod_hier_filter entry)) c2))"
    using compare_files_ParseFailure by blast
qed

theorem parse_dates_all_rows_or_failure_witness:
  "parse_dates example_to_datetime example_unify_dated ''Time'' =
     example_unify_dated\<lparr>columns :=
       dict_set (columns example_unify_dated) ''Date''
         \<lparr>dtype_object = False,
          cells = [Ts 1704067200000000000, Ts 1704672000000000000]\<rparr>\<rparr> \<and>
   set_index (parse_dates example_to_datetime example_unify_dated ''Time'') ''Date'' =
     Inr \<lparr>index = [Ts 1704067200000000000, Ts 1704672000000000000],
          columns = filter (\<lambda>(n, c). n \<noteq> ''Date'') (columns example_unify_dated)\<rparr> \<and>
   length [Ts 1704067200000000000, Ts 1704672000000000000] =
     length [Str ''2024-01-01'', Str ''2024-01-08''] \<and>
   str_extract (Str ''Week ending 07-01-2024'') = Str ''07-01-2024'' \<and>
   (\<exists>a b. ''Week ending 07-01-2024'' = a @ ''07-01-2024'' @ b) \<and>
   parse_dates example_to_datetime example_unify_garbage ''Time'' = example_unify_garbage \<and>
   compare_files (\<lambda>s. None) example_to_datetime default_comparator
     ''1. Check_Model_Custom_APROTEICI (33).xlsx'' ''IT_2393_APROTEICI_D156.xlsx''
     example_unify_garbage example_extract_dated = Inl ParseFailure"
proof -
  let ?good = "\<lparr>dtype_object = True, cells = [Str ''2024-01-01'', Str ''2024-01-08'']\<rparr>"
  let ?bad = "\<lparr>dtype_object = True, cells = [Str ''2024-01-01'', Str ''garbage'']\<rparr>"
  let ?entry = "\<lparr>geographies =
         [''Hypermarkets (7011)'', ''SSS (7013)'', ''Supermarkets (7012)'',
          ''Total Generalist Online (6100)'', ''Total Italy (inc. Discount) (7406)'',
          ''Total Italy + Pharma (4380)'', ''Total Italy Hyper+Super+Pharma (4301)'',
          ''Total Italy Pharma (3930)'', ''Total Italy+Pharma+Online (4397)''],
       prod_hier_filter = ''01-APROTEICO_3''\<rparr>"
  note t1 = parse_dates_all_rows_or_failure[where df = example_unify_dated and
      col_name = "''Time''" and to_datetime = example_to_datetime and
      self = default_comparator and
      unify_name = "''1. Check_Model_Custom_APROTEICI (33).xlsx''" and
      extract_name = "''IT_2393_APROTEICI_D156.xlsx''" and ?df2.0 = example_extract_dated and
      float_of_str = "\<lambda>s. None"]
  note t2 = parse_dates_all_rows_or_failure[where df = example_unify_garbage and
      col_name = "''Time''" and to_datetime = example_to_datetime and
      self = default_comparator and
      unify_name = "''1. Check_Model_Custom_APROTEICI (33).xlsx''" and
      extract_name = "''IT_2393_APROTEICI_D156.xlsx''" and ?df2.0 = example_extract_dated and
      float_of_str = "\<lambda>s. None"]
  have g1: "map_of (columns example_unify_dated) ''Time'' = Some ?good"
    by (simp add: example_unify_dated_def)
  have g2: "date_cells example_to_datetime ?good =
      Inr [Ts 1704067200000000000, Ts 1704672000000000000]"
    by (simp add: date_cells_def week_ending_branch_def contains_week_ending_def
        example_to_datetime_def)
  have g3: "\<forall>dayfirst vs r. example_to_datetime dayfirst vs = Inr r \<longrightarrow> length r = length vs"
    using example_to_datetime_length by blast
  from t1 g1 g2 g3
  have a: "parse_dates example_to_datetime example_unify_dated ''Time'' =
     example_unify_dated\<lparr>columns :=
       dict_set (columns example_unify_dated) ''Date''
         \<lparr>dtype_object = False,
          cells = [Ts 1704067200000000000, Ts 1704672000000000000]\<rparr>\<rparr> \<and>
     set_index (parse_dates example_to_datetime example_unify_dated ''Time'') ''Date'' =
     Inr \<lparr>index = [Ts 1704067200000000000, Ts 1704672000000000000],
          columns = filter (\<lambda>(n, c). n \<noteq> ''Date'') (columns example_unify_dated)\<rparr> \<and>
     length [Ts 1704067200000000000, Ts 1704672000000000000] = length (cells ?good)"
    by blast
  have x: "str_extract (Str ''Week ending 07-01-2024'') = Str ''07-01-2024''"
    by (simp add: str_extract_def date_pattern_here_def is_digit_def)
  from t1 have "str_extract (Str ''Week ending 07-01-2024'') = Str ''07-01-2024'' \<longrightarrow>
      (\<exists>a b. ''Week ending 07-01-2024'' = a @ ''07-01-2024'' @ b \<and>
         length ''07-01-2024'' = 10 \<and> date_pattern_here ''07-01-2024'' \<and>
         (\<forall>a' b'. ''Week ending 07-01-2024'' = a' @ b' \<and> length a' < length a \<longrightarrow>
            \<not> date_pattern_here b'))"
    by (elim conjE) (erule allE[of _ "''Week ending 07-01-2024''"],
        erule allE[of _ "''07-01-2024''"])
  with x have y: "\<exists>a b. ''Week ending 07-01-2024'' = a @ ''07-01-2024'' @ b"
    by blast
  have b1: "map_of (columns example_unify_garbage) ''Time'' = Some ?bad"
    by (simp add: example_unify_garbage_def)
  have b2: "date_cells example_to_datetime ?bad = Inl ValueError"
    by (simp add: date_cells_def week_ending_branch_def contains_week_ending_def
        example_to_datetime_def)
  from t2 b1 b2 have b: "parse_dates example_to_datetime example_unify_garbage ''Time'' =
      example_unify_garbage"
    by blast
  have v: "validate_file_mappings default_comparator
      ''1. Check_Model_Custom_APROTEICI (33).xlsx'' ''IT_2393_APROTEICI_D156.xlsx'' =
      Inr ''APROTEICI''"
    by code_simp
  have m: "map_of (mappings default_comparator) ''APROTEICI'' = Some ?entry"
    by (simp add: default_comparator_def BUILT_IN_MAPPINGS_def)
  have e: "\<not> empty (filter_extract_by_prodhier example_extract_dated (prod_hier_filter ?entry))"
    by (simp add: empty_def filter_extract_by_prodhier_def example_extract_dated_def
        take_rows_def mask_positions_def upt_rec)
  have f1: "find_date_column example_unify_garbage = Some ''Time''"
    by (simp add: find_date_column_def column_names_def example_unify_garbage_def)
  have f2: "find_date_column (filter_extract_by_prodhier example_extract_dated
      (prod_hier_filter ?entry)) = Some ''Time''"
    by (simp add: find_date_column_def column_names_def filter_extract_by_prodhier_def
        example_extract_dated_def take_rows_def)
  have n: "''Date'' \<notin> set (column_names
      (parse_dates example_to_datetime example_unify_garbage ''Time''))"
    unfolding b by (simp add: column_names_def example_unify_garbage_def)
  from t2 have "validate_file_mappings default_comparator
      ''1. Check_Model_Custom_APROTEICI (33).xlsx'' ''IT_2393_APROTEICI_D156.xlsx'' =
      Inr ''APROTEICI'' \<and>
      map_of (mappings default_comparator) ''APROTEICI'' = Some ?entry \<and>
      \<not> empty (filter_extract_by_prodhier example_extract_dated (prod_hier_filter ?entry)) \<and>
      find_date_column example_unify_garbage = Some ''Time'' \<and>
      find_date_column (filter_extract_by_prodhier example_extract_dated
        (prod_hier_filter ?entry)) = Some ''Time'' \<longrightarrow>
      (compare_files (\<lambda>s. None) example_to_datetime default_comparator
         ''1. Check_Model_Custom_APROTEICI (33).xlsx'' ''IT_2393_APROTEICI_D156.xlsx''
         example_unify_garbage example_extract_dated = Inl ParseFailure \<longleftrightarrow>
       ''Date'' \<notin> set (column_names
          (parse_dates example_to_datetime example_unify_garbage ''Time'')) \<or>
       ''Date'' \<notin> set (column_names (parse_dates example_to_datetime
            (filter_extract_by_prodhier example_extract_dated (prod_hier_filter ?entry))
            ''Time'')))"
    by blast
  with v m e f1 f2 n have c: "compare_files (\<lambda>s. None) example_to_datetime default_comparator
         ''1. Check_Model_Custom_APROTEICI (33).xlsx'' ''IT_2393_APROTEICI_D156.xlsx''
         example_unify_garbage example_extract_dated = Inl ParseFailure"
    by blast
  from a have a3: "length [Ts 1704067200000000000, Ts 1704672000000000000] =
     length [Str ''2024-01-01'', Str ''2024-01-08'']"
    by simp
  from a a3 x y b c show ?thesis by blast
qed

end
